theory Spec2Isabelle
  imports Complex_Main "HOL-Library.Word"
begin

unbundle bit_operations_syntax

text \<open>
  A model of \<^verbatim>\<open>main.go\<close> of the smart meter exporter: the scrape cycle (\<^verbatim>\<open>scrape\<close>,
  \<^verbatim>\<open>parseAndSetMetrics\<close>) in its two variants, the scheduler loop, and the part of \<^verbatim>\<open>main\<close>
  that reads the poll interval and the dual-stack switch. The metrics, the session of the device
  and everything a cycle does to the outside are one explicit state that each function takes
  and returns; a panic is a result of its own. The definitions come first, the properties
  after them.
\<close>

section \<open>Values of the Go program\<close>

subsection \<open>float64\<close>

text \<open>
  The gauges of the exporter hold \<^verbatim>\<open>float64\<close> values. A finite double is modelled by the
  rational number it denotes. \<open>float64_round\<close> is IEEE-754 rounding to the nearest double, ties
  to even, with a 53-bit significand; it is written for the normal range
  (\<open>2 ^ -1022 \<le> \<bar>x\<bar> < 2 ^ 1024\<close>) and zero. Every number the exporter converts or divides is
  zero or lies between \<open>1 / 10\<close> and \<open>2 ^ 63\<close>, well inside that range.
\<close>

type_synonym float64 = rat

fun bit_length :: "nat \<Rightarrow> nat" where
  "bit_length n = (if n = 0 then 0 else Suc (bit_length (n div 2)))"

declare bit_length.simps [simp del]

definition round_half_even :: "rat \<Rightarrow> int" where
  "round_half_even q =
     (let f = \<lfloor>q\<rfloor>; d = q - of_int f in
      if d < 1 / 2 then f
      else if 1 / 2 < d then f + 1
      else if even f then f else f + 1)"

text \<open>For \<open>x > 0\<close>, the exponent \<open>e\<close> with \<open>2 ^ e \<le> x < 2 ^ (e + 1)\<close>.\<close>

definition floor_log2 :: "rat \<Rightarrow> int" where
  "floor_log2 x =
     (let (p, q) = quotient_of x;
          e = int (bit_length (nat p)) - int (bit_length (nat q))
      in if power_int 2 e \<le> x then e else e - 1)"

definition float64_round :: "rat \<Rightarrow> float64" where
  "float64_round x =
     (if x = 0 then 0
      else let ulp = power_int 2 (floor_log2 \<bar>x\<bar> - 52)
           in sgn x * of_int (round_half_even (\<bar>x\<bar> / ulp)) * ulp)"

text \<open>The conversions \<^verbatim>\<open>float64(n)\<close> of an integer and the division \<^verbatim>\<open>a / b\<close> of two doubles.\<close>

definition float64_of_nat :: "nat \<Rightarrow> float64" where
  "float64_of_nat n = float64_round (of_nat n)"

definition float64_of_int :: "int \<Rightarrow> float64" where
  "float64_of_int n = float64_round (of_int n)"

definition float64_div :: "float64 \<Rightarrow> float64 \<Rightarrow> float64" where
  "float64_div a b = float64_round (a / b)"

subsection \<open>Byte slices and \<^verbatim>\<open>encoding/binary\<close>\<close>

type_synonym byte = "8 word"

text \<open>
  \<^verbatim>\<open>binary.BigEndian.Uint16(b)\<close> and \<^verbatim>\<open>binary.BigEndian.Uint32(b)\<close> of the Go standard library
  read \<^verbatim>\<open>b[1]\<close>, respectively \<^verbatim>\<open>b[3]\<close>, first: on a shorter slice they panic with an index out
  of range, modelled by \<open>None\<close>. Bytes beyond the first two (four) are ignored.
\<close>

definition BigEndian_Uint16 :: "byte list \<Rightarrow> 16 word option" where
  "BigEndian_Uint16 b =
     (if length b < 2 then None
      else Some (ucast (b ! 1) OR push_bit 8 (ucast (b ! 0))))"

definition BigEndian_Uint32 :: "byte list \<Rightarrow> 32 word option" where
  "BigEndian_Uint32 b =
     (if length b < 4 then None
      else Some (((ucast (b ! 3) OR push_bit 8 (ucast (b ! 2)))
                  OR push_bit 16 (ucast (b ! 1))) OR push_bit 24 (ucast (b ! 0))))"

text \<open>
  The slice expressions \<^verbatim>\<open>b[:n]\<close> and \<^verbatim>\<open>b[n:]\<close>; out of range they panic (\<open>None\<close>). Go
  checks \<^verbatim>\<open>b[:n]\<close> against the capacity of \<^verbatim>\<open>b\<close>, the model against its length. In
  \<^verbatim>\<open>parseAndSetMetrics\<close> the difference is not observable: where \<^verbatim>\<open>p.EDT[:2]\<close> is beyond the
  length, \<^verbatim>\<open>p.EDT[2:]\<close> on the next line panics before any gauge is set.
\<close>

definition slice_to :: "nat \<Rightarrow> 'a list \<Rightarrow> 'a list option" where
  "slice_to n b = (if n \<le> length b then Some (take n b) else None)"

definition slice_from :: "nat \<Rightarrow> 'a list \<Rightarrow> 'a list option" where
  "slice_from n b = (if n \<le> length b then Some (drop n b) else None)"

subsection \<open>Frames of the device client\<close>

text \<open>
  \<^verbatim>\<open>smartmeter.Property\<close> and \<^verbatim>\<open>smartmeter.Frame\<close> belong to the device client library
  \<^verbatim>\<open>github.com/hnw/go-smartmeter\<close>. The exporter reads the property code \<^verbatim>\<open>EPC\<close> and the
  raw bytes \<^verbatim>\<open>EDT\<close> of each property of a response and nothing else of a frame. The two
  property codes are constants of that library; their values are the ECHONET Lite codes of the
  low-voltage smart electric energy meter class (\<open>0xE7\<close> measured instantaneous electric power,
  \<open>0xE8\<close> measured instantaneous currents).
\<close>

record Property =
  EPC :: byte
  EDT :: "byte list"

record Frame =
  Properties :: "Property list"

definition LvSmartElectricEnergyMeter_InstantaneousElectricPower :: byte where
  "LvSmartElectricEnergyMeter_InstantaneousElectricPower = 0xE7"

definition LvSmartElectricEnergyMeter_InstantaneousCurrent :: byte where
  "LvSmartElectricEnergyMeter_InstantaneousCurrent = 0xE8"

definition NewProperty :: "byte \<Rightarrow> byte list \<Rightarrow> Property" where
  "NewProperty epc edt = \<lparr>EPC = epc, EDT = edt\<rparr>"

text \<open>The fixed request of \<^verbatim>\<open>scrape\<close>: a Get of the two properties, without data.\<close>

definition request :: Frame where
  "request =
     \<lparr>Properties =
        [NewProperty LvSmartElectricEnergyMeter_InstantaneousElectricPower [],
         NewProperty LvSmartElectricEnergyMeter_InstantaneousCurrent []]\<rparr>"

section \<open>The state the scrape cycle works on\<close>

type_synonym go_error = string

type_synonym Duration = "64 word"

definition Second :: Duration where
  "Second = 1000000000"

definition reAuthCooldown :: Duration where
  "reAuthCooldown = 5 * Second"

definition postAuthCooldown :: Duration where
  "postAuthCooldown = 2 * Second"

definition errorTypeIPResolve :: string where
  "errorTypeIPResolve = ''ip_resolve''"

definition errorTypeAuth :: string where
  "errorTypeAuth = ''auth''"

definition errorTypeQuery :: string where
  "errorTypeQuery = ''query''"

definition errorTypeParse :: string where
  "errorTypeParse = ''parse''"

text \<open>
  What a cycle does to the outside, in order: the calls of the device client and the sleeps.
  \<open>QueryEchonetLite\<close> carries the request frame and the retry count handed to the client.
\<close>

datatype call =
    GetNeibourIP
  | QueryEchonetLite Frame nat
  | Sleep Duration
  | Authenticate

datatype Level = LevelDebug | LevelInfo | LevelWarn | LevelError

text \<open>
  A log line: \<open>Printf\<close> and \<open>Println\<close> of the \<^verbatim>\<open>log\<close> package (format and arguments), or a
  record of \<^verbatim>\<open>log/slog\<close> (level, message, attributes).
\<close>

datatype log_entry =
    Printf string "string list"
  | Println string
  | Slog Level string "(string \<times> string) list"

text \<open>
  \<open>IPAddr\<close> is the one field of \<^verbatim>\<open>smartmeter.Device\<close> the exporter reads and writes. The
  metrics are the five package-level collectors: a gauge is its value (0 when new), a vector
  maps a label value to its child, the histogram is the list of its observations.
\<close>

record state =
  IPAddr :: string
  powerGauge :: float64
  currentGauge :: "string \<rightharpoonup> float64"
  lastSuccessGauge :: float64
  scrapeDuration :: "float64 list"
  scrapeErrors :: "string \<rightharpoonup> nat"
  calls :: "call list"
  logs :: "log_entry list"

text \<open>
  What the world answers during one cycle: the result of each call of the device client the
  cycle can make (at most one address resolution, one authentication and two queries), the
  clock at \<^verbatim>\<open>time.Now().Unix()\<close> and the value of \<^verbatim>\<open>time.Since(start).Seconds()\<close> when the
  deferred function runs. A Go result \<^verbatim>\<open>(v, err)\<close> is \<open>Inl err\<close> when \<^verbatim>\<open>err != nil\<close> and
  \<open>Inr v\<close> otherwise.

  The device client is a library outside \<^verbatim>\<open>main.go\<close>. That a response frame and its
  properties are not nil and that the logger does not fail are assumptions on the libraries.
  What the client does to the field \<^verbatim>\<open>IPAddr\<close> of the device is the subject of a section of
  its own below; \<^verbatim>\<open>scrape\<close> itself writes \<^verbatim>\<open>IPAddr\<close> in one place, after a successful
  resolution.
\<close>

record cycle_env =
  GetNeibourIP_result :: "go_error + string"
  QueryEchonetLite_first :: "go_error + Frame"
  Authenticate_result :: "go_error option"
  QueryEchonetLite_retry :: "go_error + Frame"
  now_unix :: int
  since_start_seconds :: float64

text \<open>
  A function either returns or panics. Nothing in the program recovers a panic, so a panic in
  the goroutine of \<^verbatim>\<open>runScrapeLoop\<close> ends the process; \<open>Panic\<close> carries the state at that
  moment.
\<close>

datatype 'a result = Done 'a | Panic 'a

text \<open>What was reached, by returning or at the panic.\<close>

fun reached :: "'a result \<Rightarrow> 'a" where
  "reached (Done x) = x"
| "reached (Panic x) = x"

definition do_call :: "call \<Rightarrow> state \<Rightarrow> state" where
  "do_call c s = s\<lparr>calls := calls s @ [c]\<rparr>"

definition do_log :: "log_entry \<Rightarrow> state \<Rightarrow> state" where
  "do_log l s = s\<lparr>logs := logs s @ [l]\<rparr>"

text \<open>\<^verbatim>\<open>scrapeErrors.WithLabelValues(t).Inc()\<close>\<close>

definition inc_scrapeErrors :: "string \<Rightarrow> state \<Rightarrow> state" where
  "inc_scrapeErrors t s =
     s\<lparr>scrapeErrors := (scrapeErrors s)(t \<mapsto> (case scrapeErrors s t of None \<Rightarrow> 1 | Some c \<Rightarrow> c + 1))\<rparr>"

text \<open>
  The state when \<^verbatim>\<open>runScrapeLoop\<close> starts: the device as \<^verbatim>\<open>smartmeter.Open\<close> returned it, with
  the address given by the option \<^verbatim>\<open>smartmeter.IPAddr\<close> or none, and the collectors as registered.
\<close>

definition new_state :: "string \<Rightarrow> state" where
  "new_state ipAddr =
     \<lparr>IPAddr = ipAddr, powerGauge = 0, currentGauge = Map.empty, lastSuccessGauge = 0,
      scrapeDuration = [], scrapeErrors = Map.empty, calls = [], logs = []\<rparr>"

section \<open>The scrape cycle (the \<^verbatim>\<open>log/slog\<close> variant of \<^verbatim>\<open>main.go\<close>)\<close>

text \<open>
  The loop of \<^verbatim>\<open>parseAndSetMetrics\<close> over \<^verbatim>\<open>response.Properties\<close>, with the flag
  \<^verbatim>\<open>foundData\<close>. Both readings of the current property are computed before either gauge is
  set, so a panic in the second leaves the gauges as they were.
\<close>

fun parseProperties :: "Property list \<Rightarrow> bool \<times> state \<Rightarrow> (bool \<times> state) result" where
  "parseProperties [] (foundData, s) = Done (foundData, s)"
| "parseProperties (p # ps) (foundData, s) =
     (if EPC p = LvSmartElectricEnergyMeter_InstantaneousElectricPower then
        (case BigEndian_Uint32 (EDT p) of
           None \<Rightarrow> Panic (foundData, s)
         | Some v \<Rightarrow>
             parseProperties ps (True, s\<lparr>powerGauge := float64_of_nat (unat v)\<rparr>))
      else if EPC p = LvSmartElectricEnergyMeter_InstantaneousCurrent then
        (case Option.bind (slice_to 2 (EDT p)) BigEndian_Uint16 of
           None \<Rightarrow> Panic (foundData, s)
         | Some r16 \<Rightarrow>
             (case Option.bind (slice_from 2 (EDT p)) BigEndian_Uint16 of
                None \<Rightarrow> Panic (foundData, s)
              | Some t16 \<Rightarrow>
                  (let r = float64_div (float64_of_nat (unat r16)) 10;
                       t = float64_div (float64_of_nat (unat t16)) 10
                   in parseProperties ps
                        (True, s\<lparr>currentGauge := (currentGauge s)(''r'' \<mapsto> r, ''t'' \<mapsto> t)\<rparr>))))
      else parseProperties ps (foundData, s))"

definition parseAndSetMetrics :: "Frame \<Rightarrow> cycle_env \<Rightarrow> state \<Rightarrow> state result" where
  "parseAndSetMetrics response env s =
     (case parseProperties (Properties response) (False, s) of
        Panic (foundData, s') \<Rightarrow> Panic s'
      | Done (foundData, s') \<Rightarrow>
          if foundData then
            Done (do_log (Slog LevelDebug ''Scrape successful'' [])
                    (s'\<lparr>lastSuccessGauge := float64_of_int (now_unix env)\<rparr>))
          else
            Done (inc_scrapeErrors errorTypeParse
                    (do_log (Slog LevelWarn ''Response contained no recognized properties'' []) s')))"

text \<open>The deferred \<^verbatim>\<open>scrapeDuration.Observe\<close>: it runs when \<^verbatim>\<open>scrape\<close> returns and when it panics.\<close>

definition observe_duration :: "cycle_env \<Rightarrow> state result \<Rightarrow> state result" where
  "observe_duration env r =
     (case r of
        Done s \<Rightarrow> Done (s\<lparr>scrapeDuration := scrapeDuration s @ [since_start_seconds env]\<rparr>)
      | Panic s \<Rightarrow> Panic (s\<lparr>scrapeDuration := scrapeDuration s @ [since_start_seconds env]\<rparr>))"

text \<open>\<^verbatim>\<open>scrape\<close> from the query on (lines 560 to 598 of \<^verbatim>\<open>main.go\<close>).\<close>

definition scrape_query :: "cycle_env \<Rightarrow> state \<Rightarrow> state result" where
  "scrape_query env s =
     (let s1 = do_call (QueryEchonetLite request 3) s in
      case QueryEchonetLite_first env of
        Inr response \<Rightarrow> parseAndSetMetrics response env s1
      | Inl err \<Rightarrow>
          (let s2 = do_log (Slog LevelInfo ''Query failed, attempting re-auth'' [(''error'', err)]) s1;
               s3 = do_log (Slog LevelDebug ''Waiting before re-auth'' [(''cooldown'', ''5s'')]) s2;
               s4 = do_call (Sleep reAuthCooldown) s3;
               s5 = do_call Authenticate s4
           in case Authenticate_result env of
                Some authErr \<Rightarrow>
                  Done (inc_scrapeErrors errorTypeAuth
                          (do_log (Slog LevelWarn ''Authentication failed'' [(''error'', authErr)]) s5))
              | None \<Rightarrow>
                  (let s6 = do_log (Slog LevelInfo ''Re-authentication successful'' []) s5;
                       s7 = do_log (Slog LevelDebug ''Waiting before retrying query''
                                      [(''cooldown'', ''2s'')]) s6;
                       s8 = do_call (Sleep postAuthCooldown) s7;
                       s9 = do_call (QueryEchonetLite request 3) s8
                   in case QueryEchonetLite_retry env of
                        Inl err2 \<Rightarrow>
                          Done (inc_scrapeErrors errorTypeQuery
                                  (do_log (Slog LevelWarn ''Query failed after re-auth''
                                             [(''error'', err2)]) s9))
                      | Inr response \<Rightarrow> parseAndSetMetrics response env s9)))"

definition scrape :: "cycle_env \<Rightarrow> state \<Rightarrow> state result" where
  "scrape env s =
     observe_duration env
       (if IPAddr s = '''' then
          (let s1 = do_call GetNeibourIP s in
           case GetNeibourIP_result env of
             Inl err \<Rightarrow>
               Done (inc_scrapeErrors errorTypeIPResolve
                       (do_log (Slog LevelWarn ''Failed to scan neighbor IP'' [(''error'', err)]) s1))
           | Inr ipAddr \<Rightarrow> scrape_query env (s1\<lparr>IPAddr := ipAddr\<rparr>))
        else scrape_query env s)"

section \<open>The scheduler loop\<close>

text \<open>
  The cycles \<^verbatim>\<open>runScrapeLoop\<close> runs one after the other, each with what the world answers
  during it; a panic ends the process and with it the loop.
\<close>

fun scrape_cycles :: "cycle_env list \<Rightarrow> state \<Rightarrow> state result" where
  "scrape_cycles [] s = Done s"
| "scrape_cycles (env # envs) s =
     (case scrape env s of
        Panic s' \<Rightarrow> Panic s'
      | Done s' \<Rightarrow> scrape_cycles envs s')"

text \<open>
  \<^verbatim>\<open>runScrapeLoop\<close>: \<^verbatim>\<open>time.NewTicker\<close> panics on an interval that is not positive; the first
  cycle runs at once, the others on the ticks that come before the context is cancelled
  (\<open>envs\<close> has one entry for each).
\<close>

definition runScrapeLoop :: "Duration \<Rightarrow> cycle_env \<Rightarrow> cycle_env list \<Rightarrow> state \<Rightarrow> state result" where
  "runScrapeLoop interval env envs s =
     (if sint interval \<le> 0 then Panic s
      else scrape_cycles (env # envs) (do_log (Slog LevelInfo ''First scrape starting'' []) s))"

section \<open>A device client that writes the address\<close>

text \<open>
  \<^verbatim>\<open>GetNeibourIP\<close>, \<^verbatim>\<open>QueryEchonetLite\<close> and \<^verbatim>\<open>Authenticate\<close> are methods on the pointer
  \<^verbatim>\<open>dev\<close>: besides returning their results they may write the fields of the device, and the
  comment of \<^verbatim>\<open>scrape\<close> on the address resolution (first time only, or when lost) expects
  \<^verbatim>\<open>dev.IPAddr\<close> to change outside \<^verbatim>\<open>scrape\<close>. The definitions \<open>scrape_query\<close> and \<open>scrape\<close>
  above are the cycle with a client that leaves the field alone. The definitions below are the
  same lines of \<^verbatim>\<open>main.go\<close> with, for each call of the client, what the call writes into
  \<^verbatim>\<open>dev.IPAddr\<close> before it returns: \<open>None\<close> when it does not write the field.
\<close>

record client_writes =
  GetNeibourIP_writes :: "string option"
  QueryEchonetLite_first_writes :: "string option"
  Authenticate_writes :: "string option"
  QueryEchonetLite_retry_writes :: "string option"

definition client_write :: "string option \<Rightarrow> state \<Rightarrow> state" where
  "client_write w s = (case w of None \<Rightarrow> s | Some ipAddr \<Rightarrow> s\<lparr>IPAddr := ipAddr\<rparr>)"

text \<open>A client that leaves the address alone from the query on.\<close>

definition leaves_address :: "client_writes \<Rightarrow> bool" where
  "leaves_address w =
     (QueryEchonetLite_first_writes w = None \<and> Authenticate_writes w = None \<and>
      QueryEchonetLite_retry_writes w = None)"

definition scrape_query_w :: "client_writes \<Rightarrow> cycle_env \<Rightarrow> state \<Rightarrow> state result" where
  "scrape_query_w w env s =
     (let s1 = client_write (QueryEchonetLite_first_writes w)
                 (do_call (QueryEchonetLite request 3) s) in
      case QueryEchonetLite_first env of
        Inr response \<Rightarrow> parseAndSetMetrics response env s1
      | Inl err \<Rightarrow>
          (let s2 = do_log (Slog LevelInfo ''Query failed, attempting re-auth'' [(''error'', err)]) s1;
               s3 = do_log (Slog LevelDebug ''Waiting before re-auth'' [(''cooldown'', ''5s'')]) s2;
               s4 = do_call (Sleep reAuthCooldown) s3;
               s5 = client_write (Authenticate_writes w) (do_call Authenticate s4)
           in case Authenticate_result env of
                Some authErr \<Rightarrow>
                  Done (inc_scrapeErrors errorTypeAuth
                          (do_log (Slog LevelWarn ''Authentication failed'' [(''error'', authErr)]) s5))
              | None \<Rightarrow>
                  (let s6 = do_log (Slog LevelInfo ''Re-authentication successful'' []) s5;
                       s7 = do_log (Slog LevelDebug ''Waiting before retrying query''
                                      [(''cooldown'', ''2s'')]) s6;
                       s8 = do_call (Sleep postAuthCooldown) s7;
                       s9 = client_write (QueryEchonetLite_retry_writes w)
                              (do_call (QueryEchonetLite request 3) s8)
                   in case QueryEchonetLite_retry env of
                        Inl err2 \<Rightarrow>
                          Done (inc_scrapeErrors errorTypeQuery
                                  (do_log (Slog LevelWarn ''Query failed after re-auth''
                                             [(''error'', err2)]) s9))
                      | Inr response \<Rightarrow> parseAndSetMetrics response env s9)))"

definition scrape_w :: "client_writes \<Rightarrow> cycle_env \<Rightarrow> state \<Rightarrow> state result" where
  "scrape_w w env s =
     observe_duration env
       (if IPAddr s = '''' then
          (let s1 = client_write (GetNeibourIP_writes w) (do_call GetNeibourIP s) in
           case GetNeibourIP_result env of
             Inl err \<Rightarrow>
               Done (inc_scrapeErrors errorTypeIPResolve
                       (do_log (Slog LevelWarn ''Failed to scan neighbor IP'' [(''error'', err)]) s1))
           | Inr ipAddr \<Rightarrow> scrape_query_w w env (s1\<lparr>IPAddr := ipAddr\<rparr>))
        else scrape_query_w w env s)"


section \<open>The older variant of \<^verbatim>\<open>main.go\<close> (package \<^verbatim>\<open>log\<close>)\<close>

text \<open>
  The first of the two versions of \<^verbatim>\<open>main.go\<close> (its lines 216 to 300), translated on its
  own: the same calls and metric updates are written out again from that text, with the
  \<^verbatim>\<open>Printf\<close> and \<^verbatim>\<open>Println\<close> lines of its logger.
\<close>

fun parseProperties_log :: "Property list \<Rightarrow> bool \<times> state \<Rightarrow> (bool \<times> state) result" where
  "parseProperties_log [] (foundData, s) = Done (foundData, s)"
| "parseProperties_log (p # ps) (foundData, s) =
     (if EPC p = LvSmartElectricEnergyMeter_InstantaneousElectricPower then
        (case BigEndian_Uint32 (EDT p) of
           None \<Rightarrow> Panic (foundData, s)
         | Some v \<Rightarrow>
             parseProperties_log ps (True, s\<lparr>powerGauge := float64_of_nat (unat v)\<rparr>))
      else if EPC p = LvSmartElectricEnergyMeter_InstantaneousCurrent then
        (case Option.bind (slice_to 2 (EDT p)) BigEndian_Uint16 of
           None \<Rightarrow> Panic (foundData, s)
         | Some r16 \<Rightarrow>
             (case Option.bind (slice_from 2 (EDT p)) BigEndian_Uint16 of
                None \<Rightarrow> Panic (foundData, s)
              | Some t16 \<Rightarrow>
                  (let r = float64_div (float64_of_nat (unat r16)) 10;
                       t = float64_div (float64_of_nat (unat t16)) 10
                   in parseProperties_log ps
                        (True, s\<lparr>currentGauge := (currentGauge s)(''r'' \<mapsto> r, ''t'' \<mapsto> t)\<rparr>))))
      else parseProperties_log ps (foundData, s))"

definition parseAndSetMetrics_log :: "Frame \<Rightarrow> cycle_env \<Rightarrow> state \<Rightarrow> state result" where
  "parseAndSetMetrics_log response env s =
     (case parseProperties_log (Properties response) (False, s) of
        Panic (foundData, s') \<Rightarrow> Panic s'
      | Done (foundData, s') \<Rightarrow>
          if foundData then
            Done (do_log (Println ''Scrape successful'')
                    (s'\<lparr>lastSuccessGauge := float64_of_int (now_unix env)\<rparr>))
          else
            Done (inc_scrapeErrors errorTypeParse
                    (do_log (Println ''Response contained no recognized properties'') s')))"

definition scrape_query_log :: "cycle_env \<Rightarrow> state \<Rightarrow> state result" where
  "scrape_query_log env s =
     (let s1 = do_call (QueryEchonetLite request 3) s in
      case QueryEchonetLite_first env of
        Inr response \<Rightarrow> parseAndSetMetrics_log response env s1
      | Inl err \<Rightarrow>
          (let s2 = do_log (Printf ''Query failed: %v'' [err]) s1;
               s3 = do_log (Printf ''Waiting %s before attempting re-auth...'' [''5s'']) s2;
               s4 = do_call (Sleep reAuthCooldown) s3;
               s5 = do_call Authenticate s4
           in case Authenticate_result env of
                Some authErr \<Rightarrow>
                  Done (inc_scrapeErrors errorTypeAuth
                          (do_log (Printf ''Authentication failed: %v'' [authErr]) s5))
              | None \<Rightarrow>
                  (let s6 = do_log (Printf
                              ''Re-authentication successful. Waiting %s before retrying query...''
                              [''2s'']) s5;
                       s7 = do_call (Sleep postAuthCooldown) s6;
                       s8 = do_call (QueryEchonetLite request 3) s7
                   in case QueryEchonetLite_retry env of
                        Inl err2 \<Rightarrow>
                          Done (inc_scrapeErrors errorTypeQuery
                                  (do_log (Printf ''Query failed after re-auth: %v'' [err2]) s8))
                      | Inr response \<Rightarrow> parseAndSetMetrics_log response env s8)))"

definition scrape_log :: "cycle_env \<Rightarrow> state \<Rightarrow> state result" where
  "scrape_log env s =
     observe_duration env
       (if IPAddr s = '''' then
          (let s1 = do_call GetNeibourIP s in
           case GetNeibourIP_result env of
             Inl err \<Rightarrow>
               Done (inc_scrapeErrors errorTypeIPResolve
                       (do_log (Printf ''Failed to scan neighbor IP: %v'' [err]) s1))
           | Inr ipAddr \<Rightarrow> scrape_query_log env (s1\<lparr>IPAddr := ipAddr\<rparr>))
        else scrape_query_log env s)"

text \<open>A result with its log lines dropped: what is left is the session, the metrics and the calls.\<close>

definition without_logs :: "state result \<Rightarrow> state result" where
  "without_logs r =
     (case r of Done s \<Rightarrow> Done (s\<lparr>logs := []\<rparr>) | Panic s \<Rightarrow> Panic (s\<lparr>logs := []\<rparr>))"

section \<open>Configuration read by \<^verbatim>\<open>main\<close>\<close>

text \<open>
  The environment is a map from names to values; \<^verbatim>\<open>os.Getenv\<close> gives the empty string for a
  name that is not set. A flag that is not on the command line leaves its variable as it was.
\<close>

definition os_Getenv :: "(string \<rightharpoonup> string) \<Rightarrow> string \<Rightarrow> string" where
  "os_Getenv environ key = (case environ key of None \<Rightarrow> '''' | Some v \<Rightarrow> v)"

definition getEnv :: "(string \<rightharpoonup> string) \<Rightarrow> string \<Rightarrow> string \<Rightarrow> string" where
  "getEnv environ key defaultVal =
     (let val = os_Getenv environ key in if val \<noteq> '''' then val else defaultVal)"

record flags =
  flag_interval :: "string option"
  flag_dse :: "bool option"

definition flag_Parse :: "'a option \<Rightarrow> 'a \<Rightarrow> 'a" where
  "flag_Parse given var = (case given of None \<Rightarrow> var | Some v \<Rightarrow> v)"

text \<open>
  \<^verbatim>\<open>strconv.Atoi\<close> of the Go standard library: an optional sign and at least one decimal digit,
  and the value must fit the type \<^verbatim>\<open>int\<close> of \<open>intSize\<close> bits (64 on amd64 and arm64, 32 on
  arm); anything else is an error (\<open>None\<close>).
\<close>

fun parse_digits :: "string \<Rightarrow> nat \<Rightarrow> nat option" where
  "parse_digits [] n = Some n"
| "parse_digits (c # cs) n =
     (if 48 \<le> (of_char c :: nat) \<and> (of_char c :: nat) \<le> 57
      then parse_digits cs (n * 10 + (of_char c - 48))
      else None)"

definition Atoi :: "nat \<Rightarrow> string \<Rightarrow> int option" where
  "Atoi intSize s0 =
     (if s0 = [] then None
      else
        (let s = (if hd s0 = CHR ''-'' \<or> hd s0 = CHR ''+'' then tl s0 else s0) in
         if s = [] then None
         else
           (case parse_digits s 0 of
              None \<Rightarrow> None
            | Some un \<Rightarrow>
                (let n = (if hd s0 = CHR ''-'' then - int un else int un) in
                 if - (2 ^ (intSize - 1)) \<le> n \<and> n < 2 ^ (intSize - 1) then Some n else None))))"

text \<open>Lines 389, 409 to 414 and 432 to 442 of \<^verbatim>\<open>main\<close>: the interval in seconds.\<close>

definition main_intervalStr :: "(string \<rightharpoonup> string) \<Rightarrow> flags \<Rightarrow> string" where
  "main_intervalStr environ fl =
     flag_Parse (flag_interval fl) (getEnv environ ''SMARTMETER_INTERVAL'' ''60'')"

definition main_intervalSec :: "nat \<Rightarrow> string \<Rightarrow> int" where
  "main_intervalSec intSize intervalStr =
     (case Atoi intSize intervalStr of
        None \<Rightarrow> 60
      | Some intervalSec \<Rightarrow> if intervalSec < 10 then 60 else intervalSec)"

text \<open>
  Line 474: \<^verbatim>\<open>time.Duration(intervalSec)*time.Second\<close>, the period handed to
  \<^verbatim>\<open>runScrapeLoop\<close>. \<^verbatim>\<open>time.Duration\<close> is an \<^verbatim>\<open>int64\<close> count of nanoseconds and the product
  wraps around.
\<close>

definition main_interval :: "nat \<Rightarrow> string \<Rightarrow> Duration" where
  "main_interval intSize intervalStr = word_of_int (main_intervalSec intSize intervalStr) * Second"

text \<open>Lines 393 and 397 to 399 of \<^verbatim>\<open>main\<close>, then the flag \<^verbatim>\<open>-dse\<close> (line 418).\<close>

definition main_useDSE_env :: "(string \<rightharpoonup> string) \<Rightarrow> bool" where
  "main_useDSE_env environ =
     (let useDSE = False; v = os_Getenv environ ''SMARTMETER_DSE'' in
      if v \<noteq> ''false'' \<and> v \<noteq> ''0'' then True else useDSE)"

definition main_useDSE :: "(string \<rightharpoonup> string) \<Rightarrow> flags \<Rightarrow> bool" where
  "main_useDSE environ fl = flag_Parse (flag_dse fl) (main_useDSE_env environ)"

section \<open>Lemmas on the values\<close>

subsection \<open>Big-endian integers\<close>

lemma unat_byte_less: "unat (b :: byte) < 256"
  using unsigned_less [of b, where ?'a = nat] by simp

lemma unat_ucast_byte_16: "unat (ucast (b :: byte) :: 16 word) = unat b"
  using unat_byte_less [of b] by (simp add: unsigned_ucast_eq take_bit_nat_eq_self)

lemma unat_ucast_byte_32: "unat (ucast (b :: byte) :: 32 word) = unat b"
  using unat_byte_less [of b] by (simp add: unsigned_ucast_eq take_bit_nat_eq_self)

lemma unat_push_byte_16: "unat (push_bit 8 (ucast (b :: byte)) :: 16 word) = unat b * 256"
  using unat_byte_less [of b]
  by (simp add: push_bit_eq_mult unat_word_ariths unat_ucast_byte_16)

lemma unat_push_byte_32:
  "unat (push_bit 8 (ucast (b :: byte)) :: 32 word) = unat b * 2 ^ 8"
  "unat (push_bit 16 (ucast (b :: byte)) :: 32 word) = unat b * 2 ^ 16"
  "unat (push_bit 24 (ucast (b :: byte)) :: 32 word) = unat b * 2 ^ 24"
  using unat_byte_less [of b]
  by (simp_all add: push_bit_eq_mult unat_word_ariths unat_ucast_byte_32)

lemma or_bytes_16:
  "(ucast (b1 :: byte) OR push_bit 8 (ucast (b0 :: byte)) :: 16 word) =
   ucast b1 + push_bit 8 (ucast b0)"
  by (rule disjunctive_add_eq_or [symmetric])
    (auto simp add: bit_eq_iff bit_simps dest: bit_imp_le_length)

lemma or_bytes_32:
  "(((ucast (b3 :: byte) OR push_bit 8 (ucast (b2 :: byte))) OR push_bit 16 (ucast (b1 :: byte)))
      OR push_bit 24 (ucast (b0 :: byte)) :: 32 word) =
   ucast b3 + push_bit 8 (ucast b2) + push_bit 16 (ucast b1) + push_bit 24 (ucast b0)"
proof -
  have lo: "(ucast b3 + push_bit 8 (ucast b2) :: 32 word) = ucast b3 OR push_bit 8 (ucast b2)"
    by (rule disjunctive_add_eq_or)
      (auto simp add: bit_eq_iff bit_simps dest: bit_imp_le_length)
  have mid: "((ucast b3 OR push_bit 8 (ucast b2)) + push_bit 16 (ucast b1) :: 32 word) =
      (ucast b3 OR push_bit 8 (ucast b2)) OR push_bit 16 (ucast b1)"
    by (rule disjunctive_add_eq_or)
      (auto simp add: bit_eq_iff bit_simps dest: bit_imp_le_length)
  have hi: "(((ucast b3 OR push_bit 8 (ucast b2)) OR push_bit 16 (ucast b1))
        + push_bit 24 (ucast b0) :: 32 word) =
      ((ucast b3 OR push_bit 8 (ucast b2)) OR push_bit 16 (ucast b1)) OR push_bit 24 (ucast b0)"
    by (rule disjunctive_add_eq_or)
      (auto simp add: bit_eq_iff bit_simps dest: bit_imp_le_length)
  show ?thesis unfolding lo mid hi ..
qed

lemma BigEndian_Uint16_value:
  "BigEndian_Uint16 (b0 # b1 # bs) = Some w \<Longrightarrow> unat w = unat b0 * 256 + unat b1"
proof -
  assume "BigEndian_Uint16 (b0 # b1 # bs) = Some w"
  then have w: "w = ucast b1 + push_bit 8 (ucast b0)"
    by (simp add: BigEndian_Uint16_def or_bytes_16)
  have "unat b1 + unat b0 * 256 < 2 ^ 16"
    using unat_byte_less [of b0] unat_byte_less [of b1] by simp
  then show ?thesis
    unfolding w by (simp only: unat_word_ariths unat_push_byte_16 unat_ucast_byte_16) simp
qed

lemma BigEndian_Uint32_value:
  "BigEndian_Uint32 (b0 # b1 # b2 # b3 # bs) = Some w \<Longrightarrow>
   unat w = unat b0 * 2 ^ 24 + unat b1 * 2 ^ 16 + unat b2 * 2 ^ 8 + unat b3"
proof -
  assume "BigEndian_Uint32 (b0 # b1 # b2 # b3 # bs) = Some w"
  then have w: "w = ucast b3 + push_bit 8 (ucast b2) + push_bit 16 (ucast b1) + push_bit 24 (ucast b0)"
    by (simp add: BigEndian_Uint32_def or_bytes_32)
  have "unat b3 + unat b2 * 2 ^ 8 + unat b1 * 2 ^ 16 + unat b0 * 2 ^ 24 < 2 ^ 32"
    using unat_byte_less [of b0] unat_byte_less [of b1] unat_byte_less [of b2]
      unat_byte_less [of b3] by simp
  then show ?thesis
    unfolding w by (simp only: unat_word_ariths unat_push_byte_32 unat_ucast_byte_32) simp
qed

lemma BigEndian_Uint16_Some: "2 \<le> length b \<Longrightarrow> \<exists>w. BigEndian_Uint16 b = Some w"
  by (simp add: BigEndian_Uint16_def)

lemma BigEndian_Uint32_Some: "4 \<le> length b \<Longrightarrow> \<exists>w. BigEndian_Uint32 b = Some w"
  by (simp add: BigEndian_Uint32_def)

lemma BigEndian_Uint32_None: "length b < 4 \<Longrightarrow> BigEndian_Uint32 b = None"
  by (simp add: BigEndian_Uint32_def)

subsection \<open>Integers that a double holds exactly\<close>

lemma bit_length_le: "n < 2 ^ k \<Longrightarrow> bit_length n \<le> k"
proof (induction k arbitrary: n)
  case 0
  then show ?case by (simp add: bit_length.simps)
next
  case (Suc k)
  then have "n div 2 < 2 ^ k" by simp
  then have "bit_length (n div 2) \<le> k" by (rule Suc.IH)
  then show ?case by (subst bit_length.simps) simp
qed

lemma bit_length_1: "bit_length (Suc 0) = 1"
  by (simp add: bit_length.simps)

lemma floor_log2_of_nat_le:
  assumes "n < 2 ^ 53"
  shows "floor_log2 (of_nat n) \<le> 52"
proof -
  have q: "quotient_of (of_nat n) = (int n, 1)"
    using quotient_of_int [of "int n"] by simp
  have "bit_length n \<le> 53" using assms by (rule bit_length_le)
  then show ?thesis
    by (simp add: floor_log2_def q bit_length_1 Let_def)
qed

lemma round_half_even_of_int: "round_half_even (of_int m) = m"
  by (simp add: round_half_even_def)

lemma float64_round_of_nat:
  assumes "n < 2 ^ 53"
  shows "float64_round (of_nat n) = of_nat n"
proof (cases "n = 0")
  case True
  then show ?thesis by (simp add: float64_round_def)
next
  case False
  define k where "k = nat (52 - floor_log2 (of_nat n))"
  have e: "floor_log2 (of_nat n) - 52 = - int k"
    using floor_log2_of_nat_le [OF assms] by (simp add: k_def)
  have ulp: "power_int (2::rat) (floor_log2 (of_nat n) - 52) = 1 / 2 ^ k"
    unfolding e by (simp add: power_int_minus field_simps)
  have "(of_nat n :: rat) * 2 ^ k = of_int (int n * 2 ^ k)"
    by simp
  then have r: "round_half_even ((of_nat n :: rat) * 2 ^ k) = int n * 2 ^ k"
    by (simp only: round_half_even_of_int)
  show ?thesis
    using False by (simp add: float64_round_def ulp r Let_def)
qed

lemma float64_of_uint32: "float64_of_nat (unat (w :: 32 word)) = of_nat (unat w)"
proof -
  have "unat w < 2 ^ 32" using unsigned_less [of w, where ?'a = nat] by simp
  then have "unat w < 2 ^ 53" by (rule less_trans) simp
  then show ?thesis unfolding float64_of_nat_def by (rule float64_round_of_nat)
qed

lemma float64_of_uint16: "float64_of_nat (unat (w :: 16 word)) = of_nat (unat w)"
proof -
  have "unat w < 2 ^ 16" using unsigned_less [of w, where ?'a = nat] by simp
  then have "unat w < 2 ^ 53" by (rule less_trans) simp
  then show ?thesis unfolding float64_of_nat_def by (rule float64_round_of_nat)
qed

subsection \<open>The rounding to a double\<close>

lemma bit_length_bounds:
  "0 < n \<Longrightarrow> 2 ^ (bit_length n - 1) \<le> n \<and> n < 2 ^ bit_length n"
proof (induction n rule: bit_length.induct)
  case (1 n)
  show ?case
  proof (cases "n div 2 = 0")
    case True
    then have "n = 1" using "1.prems" by presburger
    then show ?thesis by (simp add: bit_length_1)
  next
    case False
    then have half: "0 < n div 2" by simp
    have ih: "2 ^ (bit_length (n div 2) - 1) \<le> n div 2 \<and> n div 2 < 2 ^ bit_length (n div 2)"
      using "1.IH" "1.prems" half by simp
    have pos: "0 < bit_length (n div 2)"
      using half by (subst bit_length.simps) simp
    have len: "bit_length n = Suc (bit_length (n div 2))"
      using "1.prems" by (subst bit_length.simps) simp
    have "2 * 2 ^ (bit_length (n div 2) - 1) \<le> n"
      using ih by presburger
    moreover have "2 * (2::nat) ^ (bit_length (n div 2) - 1) = 2 ^ bit_length (n div 2)"
      using pos by (cases "bit_length (n div 2)") simp_all
    moreover have "n < 2 * 2 ^ bit_length (n div 2)"
      using ih by presburger
    ultimately show ?thesis
      by (simp add: len)
  qed
qed

lemma round_half_even_error: "\<bar>of_int (round_half_even q) - q\<bar> \<le> 1 / 2"
proof -
  define d where "d = q - of_int \<lfloor>q\<rfloor>"
  have d: "0 \<le> d" "d < 1"
    unfolding d_def by linarith+
  have q: "q = of_int \<lfloor>q\<rfloor> + d"
    by (simp add: d_def)
  consider "d < 1 / 2" | "1 / 2 < d" | "d = 1 / 2" by linarith
  then show ?thesis
  proof cases
    case 1
    then have "round_half_even q = \<lfloor>q\<rfloor>"
      by (simp add: round_half_even_def Let_def d_def)
    then have "of_int (round_half_even q) - q = - d"
      by (simp add: d_def)
    then show ?thesis using 1 d by (simp add: abs_if)
  next
    case 2
    then have "round_half_even q = \<lfloor>q\<rfloor> + 1"
      by (simp add: round_half_even_def Let_def d_def)
    then have "of_int (round_half_even q) - q = 1 - d"
      by (simp add: d_def)
    then show ?thesis using 2 d by (simp add: abs_if)
  next
    case 3
    then have "round_half_even q = \<lfloor>q\<rfloor> \<or> round_half_even q = \<lfloor>q\<rfloor> + 1"
      by (simp add: round_half_even_def Let_def d_def)
    then have "of_int (round_half_even q) - q = - d \<or> of_int (round_half_even q) - q = 1 - d"
      by (auto simp add: d_def)
    then show ?thesis using 3 by (auto simp add: abs_if)
  qed
qed

lemma floor_log2_bounds:
  assumes "0 < x"
  shows "power_int 2 (floor_log2 x) \<le> x \<and> x < power_int 2 (floor_log2 x + 1)"
proof -
  obtain p q where pq: "quotient_of x = (p, q)" by (cases "quotient_of x")
  have q: "0 < q" using pq by (rule quotient_of_denom_pos)
  have x: "x = of_int p / of_int q" using pq by (rule quotient_of_div)
  have p: "0 < p" using assms q by (simp add: x zero_less_divide_iff)
  define bp bq where "bp = bit_length (nat p)" and "bq = bit_length (nat q)"
  define P Q A B :: rat where "P = of_int p" and "Q = of_int q" and "A = 2 ^ bp" and "B = 2 ^ bq"
  have pb: "2 ^ (bp - 1) \<le> nat p \<and> nat p < 2 ^ bp"
    unfolding bp_def using p by (intro bit_length_bounds) simp
  have qb: "2 ^ (bq - 1) \<le> nat q \<and> nat q < 2 ^ bq"
    unfolding bq_def using q by (intro bit_length_bounds) simp
  have bp: "0 < bp" using pb p by (cases bp) simp_all
  have bq: "0 < bq" using qb q by (cases bq) simp_all
  have dbl: "2 ^ bp \<le> 2 * nat p" "2 ^ bq \<le> 2 * nat q"
    using pb qb bp bq by (cases bp, simp, simp, cases bq, simp, simp)
  have Pn: "P = of_nat (nat p)" and Qn: "Q = of_nat (nat q)"
    using p q by (simp_all add: P_def Q_def)
  have "(of_nat (2 ^ bp) :: rat) \<le> of_nat (2 * nat p)"
    using dbl(1) by (rule of_nat_mono)
  moreover have "(of_nat (2 ^ bq) :: rat) \<le> of_nat (2 * nat q)"
    using dbl(2) by (rule of_nat_mono)
  moreover have "(of_nat (nat p) :: rat) < of_nat (2 ^ bp)"
    using pb by (simp only: of_nat_less_iff)
  moreover have "(of_nat (nat q) :: rat) < of_nat (2 ^ bq)"
    using qb by (simp only: of_nat_less_iff)
  ultimately have bounds: "A \<le> 2 * P" "B \<le> 2 * Q" "P < A" "Q < B"
    by (simp_all add: Pn Qn A_def B_def)
  have pos: "0 < P" "0 < Q" "0 < A" "0 < B"
    using p q by (simp_all add: P_def Q_def A_def B_def)
  have e0: "power_int (2::rat) (int bp - int bq) = A / B"
    by (simp add: power_int_diff A_def B_def)
  have e1: "power_int (2::rat) (int bp - int bq + 1) = 2 * A / B"
    by (simp add: power_int_add e0)
  have e2: "power_int (2::rat) (int bp - int bq - 1) = A / (2 * B)"
    by (simp add: power_int_diff e0)
  have "P * B < A * (2 * Q)"
    using bounds pos by (intro mult_less_le_imp_less) simp_all
  then have up: "P / Q < 2 * A / B"
    using pos by (simp add: field_simps)
  have "A * Q \<le> (2 * P) * B"
    using bounds pos by (intro mult_mono) simp_all
  then have low: "A / (2 * B) \<le> P / Q"
    using pos by (simp add: field_simps)
  have xPQ: "x = P / Q" by (simp add: x P_def Q_def)
  show ?thesis
  proof (cases "A / B \<le> P / Q")
    case True
    then have "floor_log2 x = int bp - int bq"
      by (simp add: floor_log2_def pq Let_def bp_def [symmetric] bq_def [symmetric] e0 xPQ [symmetric])
    then show ?thesis using True up by (simp add: e0 e1 xPQ)
  next
    case False
    then have "floor_log2 x = int bp - int bq - 1"
      by (simp add: floor_log2_def pq Let_def bp_def [symmetric] bq_def [symmetric] e0 xPQ [symmetric])
    then show ?thesis using False low by (simp add: e0 e2 xPQ)
  qed
qed

text \<open>
  For \<open>x > 0\<close> the rounded value is a whole multiple of the unit in the last place and is
  within half a unit of \<open>x\<close>: a relative error of at most \<open>2 ^ -53\<close>.
\<close>

lemma float64_round_error:
  assumes "0 < x"
  shows "\<bar>float64_round x - x\<bar> \<le> x / 2 ^ 53"
proof -
  define e where "e = floor_log2 x"
  define ulp :: rat where "ulp = power_int 2 (e - 52)"
  define m where "m = round_half_even (x / ulp)"
  have ulp: "0 < ulp" by (simp add: ulp_def)
  have fr: "float64_round x = of_int m * ulp"
    using assms by (simp add: float64_round_def Let_def e_def ulp_def m_def)
  have "\<bar>of_int m - x / ulp\<bar> \<le> 1 / 2"
    unfolding m_def by (rule round_half_even_error)
  then have "\<bar>of_int m - x / ulp\<bar> * ulp \<le> 1 / 2 * ulp"
    using ulp by (intro mult_right_mono) simp_all
  moreover have "\<bar>of_int m - x / ulp\<bar> * ulp = \<bar>of_int m * ulp - x\<bar>"
    using ulp by (simp add: abs_mult [symmetric] left_diff_distrib abs_mult_pos)
  ultimately have half: "\<bar>float64_round x - x\<bar> \<le> ulp / 2"
    by (simp add: fr)
  have "ulp = power_int 2 e / 2 ^ 52"
    by (simp add: ulp_def power_int_diff)
  moreover have "power_int 2 e \<le> x"
    unfolding e_def using floor_log2_bounds [OF assms] by simp
  ultimately have "ulp / 2 \<le> x / 2 ^ 53"
    by (simp add: field_simps)
  with half show ?thesis by linarith
qed

lemma float64_div_error:
  assumes "0 < a" and "0 < b"
  shows "\<bar>float64_div a b - a / b\<bar> \<le> a / b / 2 ^ 53"
  unfolding float64_div_def using assms by (intro float64_round_error) simp

section \<open>The property decoder\<close>

lemma slice_current_bytes:
  "Option.bind (slice_to 2 [b0, b1, b2, b3]) BigEndian_Uint16 = BigEndian_Uint16 [b0, b1]"
  "Option.bind (slice_from 2 [b0, b1, b2, b3]) BigEndian_Uint16 = BigEndian_Uint16 [b2, b3]"
  by (simp_all add: slice_to_def slice_from_def)

lemma float64_div_exact_examples:
  "float64_div 100 10 = 10" "float64_div 50 10 = 5"
  by (code_simp, code_simp)

lemma property_codes_differ:
  "LvSmartElectricEnergyMeter_InstantaneousCurrent \<noteq>
   LvSmartElectricEnergyMeter_InstantaneousElectricPower"
  by (simp add: LvSmartElectricEnergyMeter_InstantaneousCurrent_def
      LvSmartElectricEnergyMeter_InstantaneousElectricPower_def)

text \<open>Properties with other identifiers leave a gauge as it is, whether the loop returns or panics.\<close>

lemma parseProperties_keeps_powerGauge:
  assumes "\<forall>q \<in> set ps. EPC q \<noteq> LvSmartElectricEnergyMeter_InstantaneousElectricPower"
  shows "powerGauge (snd (reached (parseProperties ps (foundData, s)))) = powerGauge s"
  using assms
proof (induction ps arbitrary: foundData s)
  case Nil
  show ?case by simp
next
  case (Cons p ps)
  then show ?case by (simp add: Let_def split: option.splits)
qed

lemma parseProperties_keeps_currentGauge:
  assumes "\<forall>q \<in> set ps. EPC q \<noteq> LvSmartElectricEnergyMeter_InstantaneousCurrent"
  shows "currentGauge (snd (reached (parseProperties ps (foundData, s)))) = currentGauge s"
  using assms
proof (induction ps arbitrary: foundData s)
  case Nil
  show ?case by simp
next
  case (Cons p ps)
  then show ?case by (simp add: Let_def split: option.splits)
qed

text \<open>
  C2. A response property with the identifier of the instantaneous power and four raw bytes
  \<open>b0 b1 b2 b3\<close>: the loop of \<^verbatim>\<open>parseAndSetMetrics\<close> sets the power gauge to the number
  \<open>b0 * 2^24 + b1 * 2^16 + b2 * 2^8 + b3\<close>, the bytes read as a big-endian unsigned 32-bit
  integer, exactly (the conversion to \<^verbatim>\<open>float64\<close> does not round and nothing scales it), marks
  data as found and goes on with the other properties. When no later property of the response
  has the identifier, this is the value of the gauge when the loop ends.
\<close>

theorem power_reading_is_big_endian_uint32:
  assumes "EPC p = LvSmartElectricEnergyMeter_InstantaneousElectricPower"
    and "EDT p = [b0, b1, b2, b3]"
  shows "parseProperties (p # ps) (foundData, s) =
         parseProperties ps
           (True, s\<lparr>powerGauge :=
                      of_nat (unat b0 * 2 ^ 24 + unat b1 * 2 ^ 16 + unat b2 * 2 ^ 8 + unat b3)\<rparr>)
       \<and> ((\<forall>q \<in> set ps. EPC q \<noteq> LvSmartElectricEnergyMeter_InstantaneousElectricPower) \<longrightarrow>
            powerGauge (snd (reached (parseProperties (p # ps) (foundData, s)))) =
            of_nat (unat b0 * 2 ^ 24 + unat b1 * 2 ^ 16 + unat b2 * 2 ^ 8 + unat b3))"
proof -
  obtain w where w: "BigEndian_Uint32 [b0, b1, b2, b3] = Some w"
    using BigEndian_Uint32_Some [of "[b0, b1, b2, b3]"] by auto
  have "unat w = unat b0 * 2 ^ 24 + unat b1 * 2 ^ 16 + unat b2 * 2 ^ 8 + unat b3"
    using w by (rule BigEndian_Uint32_value)
  then have "float64_of_nat (unat w) =
      of_nat (unat b0 * 2 ^ 24 + unat b1 * 2 ^ 16 + unat b2 * 2 ^ 8 + unat b3)"
    using float64_of_uint32 [of w] by simp
  then have step: "parseProperties (p # ps) (foundData, s) =
      parseProperties ps
        (True, s\<lparr>powerGauge :=
                   of_nat (unat b0 * 2 ^ 24 + unat b1 * 2 ^ 16 + unat b2 * 2 ^ 8 + unat b3)\<rparr>)"
    using assms w by simp
  show ?thesis
    unfolding step by (simp add: parseProperties_keeps_powerGauge)
qed

theorem power_reading_witness:
  "parseProperties
     [\<lparr>EPC = LvSmartElectricEnergyMeter_InstantaneousElectricPower, EDT = [0x00, 0x00, 0x04, 0xB0]\<rparr>]
     (False, new_state '''') =
   Done (True, (new_state '''')\<lparr>powerGauge := 1200\<rparr>)
   \<and> powerGauge (snd (reached (parseProperties
        [\<lparr>EPC = LvSmartElectricEnergyMeter_InstantaneousElectricPower,
          EDT = [0x00, 0x00, 0x04, 0xB0]\<rparr>]
        (False, new_state '''')))) = 1200"
  using power_reading_is_big_endian_uint32
    [of "\<lparr>EPC = LvSmartElectricEnergyMeter_InstantaneousElectricPower,
          EDT = [0x00, 0x00, 0x04, 0xB0]\<rparr>" 0 0 4 "0xB0" "[]" False "new_state ''''"]
  by simp

text \<open>
  C3. A response property with the identifier of the instantaneous current and four raw bytes
  \<open>b0 b1 b2 b3\<close>: the loop sets the gauge of phase \<open>r\<close> to the big-endian unsigned 16-bit
  integer \<open>b0 * 256 + b1\<close> divided by 10.0 and the gauge of phase \<open>t\<close> to \<open>b2 * 256 + b3\<close>
  divided by 10.0. The division is that of doubles: the quotient rounded to the nearest double
  (\<open>float64_div_error\<close> bounds the rounding). When no later property of the response has the
  identifier, these are the values of the two gauges when the loop ends.
\<close>

theorem current_readings_are_big_endian_uint16_tenths:
  assumes "EPC p = LvSmartElectricEnergyMeter_InstantaneousCurrent"
    and "EDT p = [b0, b1, b2, b3]"
  shows "parseProperties (p # ps) (foundData, s) =
         parseProperties ps
           (True, s\<lparr>currentGauge := (currentGauge s)
                      (''r'' \<mapsto> float64_div (of_nat (unat b0 * 256 + unat b1)) 10,
                       ''t'' \<mapsto> float64_div (of_nat (unat b2 * 256 + unat b3)) 10)\<rparr>)
       \<and> ((\<forall>q \<in> set ps. EPC q \<noteq> LvSmartElectricEnergyMeter_InstantaneousCurrent) \<longrightarrow>
            currentGauge (snd (reached (parseProperties (p # ps) (foundData, s)))) ''r'' =
              Some (float64_div (of_nat (unat b0 * 256 + unat b1)) 10) \<and>
            currentGauge (snd (reached (parseProperties (p # ps) (foundData, s)))) ''t'' =
              Some (float64_div (of_nat (unat b2 * 256 + unat b3)) 10))"
proof -
  obtain r16 where r16: "BigEndian_Uint16 [b0, b1] = Some r16"
    using BigEndian_Uint16_Some [of "[b0, b1]"] by auto
  obtain t16 where t16: "BigEndian_Uint16 [b2, b3] = Some t16"
    using BigEndian_Uint16_Some [of "[b2, b3]"] by auto
  have r: "float64_of_nat (unat r16) = of_nat (unat b0 * 256 + unat b1)"
    using BigEndian_Uint16_value [OF r16] float64_of_uint16 [of r16] by simp
  have t: "float64_of_nat (unat t16) = of_nat (unat b2 * 256 + unat b3)"
    using BigEndian_Uint16_value [OF t16] float64_of_uint16 [of t16] by simp
  have step: "parseProperties (p # ps) (foundData, s) =
      parseProperties ps
        (True, s\<lparr>currentGauge := (currentGauge s)
                   (''r'' \<mapsto> float64_div (of_nat (unat b0 * 256 + unat b1)) 10,
                    ''t'' \<mapsto> float64_div (of_nat (unat b2 * 256 + unat b3)) 10)\<rparr>)"
    using assms property_codes_differ by (simp add: slice_current_bytes r16 t16 r t Let_def)
  show ?thesis
    unfolding step by (simp add: parseProperties_keeps_currentGauge)
qed

theorem current_readings_witness:
  "parseProperties
     [\<lparr>EPC = LvSmartElectricEnergyMeter_InstantaneousCurrent, EDT = [0x00, 0x64, 0x00, 0x32]\<rparr>]
     (False, new_state '''') =
   Done (True, (new_state '''')\<lparr>currentGauge := [''r'' \<mapsto> 10, ''t'' \<mapsto> 5]\<rparr>)
   \<and> currentGauge (snd (reached (parseProperties
        [\<lparr>EPC = LvSmartElectricEnergyMeter_InstantaneousCurrent, EDT = [0x00, 0x64, 0x00, 0x32]\<rparr>]
        (False, new_state '''')))) ''r'' = Some 10
   \<and> currentGauge (snd (reached (parseProperties
        [\<lparr>EPC = LvSmartElectricEnergyMeter_InstantaneousCurrent, EDT = [0x00, 0x64, 0x00, 0x32]\<rparr>]
        (False, new_state '''')))) ''t'' = Some 5"
  using current_readings_are_big_endian_uint16_tenths
    [of "\<lparr>EPC = LvSmartElectricEnergyMeter_InstantaneousCurrent,
          EDT = [0x00, 0x64, 0x00, 0x32]\<rparr>" 0 "0x64" 0 "0x32" "[]" False "new_state ''''"]
  by (simp add: float64_div_exact_examples new_state_def)

section \<open>The scrape cycle\<close>

lemmas step_defs = do_call_def do_log_def inc_scrapeErrors_def

lemma parseProperties_unrecognized:
  assumes "\<forall>p \<in> set ps. EPC p \<noteq> LvSmartElectricEnergyMeter_InstantaneousElectricPower \<and>
                        EPC p \<noteq> LvSmartElectricEnergyMeter_InstantaneousCurrent"
  shows "parseProperties ps (foundData, s) = Done (foundData, s)"
  using assms by (induction ps) simp_all

lemma parseAndSetMetrics_unrecognized:
  assumes "\<forall>p \<in> set (Properties response).
             EPC p \<noteq> LvSmartElectricEnergyMeter_InstantaneousElectricPower \<and>
             EPC p \<noteq> LvSmartElectricEnergyMeter_InstantaneousCurrent"
  shows "parseAndSetMetrics response env s =
         Done (s\<lparr>logs := logs s @ [Slog LevelWarn ''Response contained no recognized properties'' []],
                 scrapeErrors := (scrapeErrors s)
                   (''parse'' \<mapsto> (case scrapeErrors s ''parse'' of None \<Rightarrow> 1 | Some c \<Rightarrow> c + 1))\<rparr>)"
  using parseProperties_unrecognized [OF assms, of False s]
  by (simp add: parseAndSetMetrics_def step_defs errorTypeParse_def)

text \<open>
  C4. A response in which no property has one of the two identifiers, however many properties
  it has: \<^verbatim>\<open>parseAndSetMetrics\<close> returns, the counter of parse errors is one higher, the warning
  is logged and nothing else has changed. A cycle that hands such a response to the decoder,
  from its first query or from the query after the re-authentication, returns with the counter
  \<open>parse\<close> one higher and with the power gauge, both current gauges and the time of the last
  success as they were.
\<close>

theorem no_recognized_property_is_parse_failure:
  assumes "\<forall>p \<in> set (Properties response).
             EPC p \<noteq> LvSmartElectricEnergyMeter_InstantaneousElectricPower \<and>
             EPC p \<noteq> LvSmartElectricEnergyMeter_InstantaneousCurrent"
    and "IPAddr s = '''' \<Longrightarrow> GetNeibourIP_result env = Inr a"
    and "QueryEchonetLite_first env = Inr response \<or>
         (QueryEchonetLite_first env = Inl e \<and> Authenticate_result env = None \<and>
          QueryEchonetLite_retry env = Inr response)"
  shows "parseAndSetMetrics response env s0 =
         Done (s0\<lparr>logs := logs s0 @ [Slog LevelWarn ''Response contained no recognized properties'' []],
                  scrapeErrors := (scrapeErrors s0)
                    (''parse'' \<mapsto> (case scrapeErrors s0 ''parse'' of None \<Rightarrow> 1 | Some c \<Rightarrow> c + 1))\<rparr>)
       \<and> (\<exists>s'. scrape env s = Done s' \<and>
             scrapeErrors s' = (scrapeErrors s)
               (''parse'' \<mapsto> (case scrapeErrors s ''parse'' of None \<Rightarrow> 1 | Some c \<Rightarrow> c + 1)) \<and>
             powerGauge s' = powerGauge s \<and> currentGauge s' = currentGauge s \<and>
             lastSuccessGauge s' = lastSuccessGauge s)"
proof -
  note parse = parseAndSetMetrics_unrecognized [OF assms(1)]
  have cycle: "\<exists>s'. scrape env s = Done s' \<and>
      scrapeErrors s' = (scrapeErrors s)
        (''parse'' \<mapsto> (case scrapeErrors s ''parse'' of None \<Rightarrow> 1 | Some c \<Rightarrow> c + 1)) \<and>
      powerGauge s' = powerGauge s \<and> currentGauge s' = currentGauge s \<and>
      lastSuccessGauge s' = lastSuccessGauge s"
  proof (cases "IPAddr s = ''''")
    case True
    with assms(2,3) show ?thesis
      by (auto simp add: scrape_def scrape_query_def parse observe_duration_def step_defs Let_def)
  next
    case False
    with assms(3) show ?thesis
      by (auto simp add: scrape_def scrape_query_def parse observe_duration_def step_defs Let_def)
  qed
  from parse [of env s0] cycle show ?thesis by simp
qed

theorem no_recognized_property_witness:
  "parseAndSetMetrics \<lparr>Properties = [\<lparr>EPC = 0x80, EDT = [0x30]\<rparr>, \<lparr>EPC = 0xE0, EDT = [0, 0, 0, 1]\<rparr>]\<rparr>
     \<lparr>GetNeibourIP_result = Inr ''FE80:0000:0000:0000:021D:1290:1234:5678'',
      QueryEchonetLite_first =
        Inr \<lparr>Properties = [\<lparr>EPC = 0x80, EDT = [0x30]\<rparr>, \<lparr>EPC = 0xE0, EDT = [0, 0, 0, 1]\<rparr>]\<rparr>,
      Authenticate_result = None, QueryEchonetLite_retry = Inl ''unused'',
      now_unix = 1700000000, since_start_seconds = 1\<rparr>
     (new_state '''') =
   Done ((new_state '''')
           \<lparr>logs := [Slog LevelWarn ''Response contained no recognized properties'' []],
            scrapeErrors := [''parse'' \<mapsto> 1]\<rparr>)
   \<and> (\<exists>s'. scrape
          \<lparr>GetNeibourIP_result = Inr ''FE80:0000:0000:0000:021D:1290:1234:5678'',
           QueryEchonetLite_first =
             Inr \<lparr>Properties = [\<lparr>EPC = 0x80, EDT = [0x30]\<rparr>, \<lparr>EPC = 0xE0, EDT = [0, 0, 0, 1]\<rparr>]\<rparr>,
           Authenticate_result = None, QueryEchonetLite_retry = Inl ''unused'',
           now_unix = 1700000000, since_start_seconds = 1\<rparr>
          (new_state '''') = Done s' \<and>
        scrapeErrors s' = [''parse'' \<mapsto> 1] \<and> powerGauge s' = 0 \<and>
        currentGauge s' = Map.empty \<and> lastSuccessGauge s' = 0)"
  using no_recognized_property_is_parse_failure
    [of "\<lparr>Properties = [\<lparr>EPC = 0x80, EDT = [0x30]\<rparr>, \<lparr>EPC = 0xE0, EDT = [0, 0, 0, 1]\<rparr>]\<rparr>"
        "new_state ''''"
        "\<lparr>GetNeibourIP_result = Inr ''FE80:0000:0000:0000:021D:1290:1234:5678'',
          QueryEchonetLite_first =
            Inr \<lparr>Properties = [\<lparr>EPC = 0x80, EDT = [0x30]\<rparr>, \<lparr>EPC = 0xE0, EDT = [0, 0, 0, 1]\<rparr>]\<rparr>,
          Authenticate_result = None, QueryEchonetLite_retry = Inl ''unused'',
          now_unix = 1700000000, since_start_seconds = 1\<rparr>"
        "''FE80:0000:0000:0000:021D:1290:1234:5678''" "''''"
        "new_state ''''"]
  by (simp add: new_state_def LvSmartElectricEnergyMeter_InstantaneousElectricPower_def
      LvSmartElectricEnergyMeter_InstantaneousCurrent_def)

text \<open>
  C5. A cycle that starts without a device address and in which the address resolution fails:
  \<^verbatim>\<open>scrape\<close> returns after the one call \<^verbatim>\<open>GetNeibourIP\<close>; no query, no sleep and no
  authentication follows. The counter \<open>ip_resolve\<close> is one higher, the warning is logged, the
  duration is observed, and nothing else has changed.
\<close>

theorem failed_resolution_ends_cycle:
  assumes "IPAddr s = ''''"
    and "GetNeibourIP_result env = Inl err"
  shows "scrape env s =
         Done (s\<lparr>calls := calls s @ [GetNeibourIP],
                 logs := logs s @ [Slog LevelWarn ''Failed to scan neighbor IP'' [(''error'', err)]],
                 scrapeErrors := (scrapeErrors s)
                   (''ip_resolve'' \<mapsto> (case scrapeErrors s ''ip_resolve'' of None \<Rightarrow> 1 | Some c \<Rightarrow> c + 1)),
                 scrapeDuration := scrapeDuration s @ [since_start_seconds env]\<rparr>)"
  using assms
  by (simp add: scrape_def observe_duration_def step_defs errorTypeIPResolve_def Let_def)

theorem failed_resolution_witness:
  "scrape \<lparr>GetNeibourIP_result = Inl ''no neighbor'', QueryEchonetLite_first = Inl ''unused'',
           Authenticate_result = None, QueryEchonetLite_retry = Inl ''unused'',
           now_unix = 1700000000, since_start_seconds = 3\<rparr>
     (new_state '''') =
   Done ((new_state '''')
           \<lparr>calls := [GetNeibourIP],
            logs := [Slog LevelWarn ''Failed to scan neighbor IP'' [(''error'', ''no neighbor'')]],
            scrapeErrors := [''ip_resolve'' \<mapsto> 1],
            scrapeDuration := [3]\<rparr>)"
  using failed_resolution_ends_cycle
    [of "new_state ''''"
        "\<lparr>GetNeibourIP_result = Inl ''no neighbor'', QueryEchonetLite_first = Inl ''unused'',
          Authenticate_result = None, QueryEchonetLite_retry = Inl ''unused'',
          now_unix = 1700000000, since_start_seconds = 3\<rparr>" "''no neighbor''"]
  by (simp add: new_state_def)

text \<open>
  C6. A cycle that reaches the query (the address is known, or its resolution succeeds), in
  which the first query fails, the authentication succeeds and the second query fails: after
  the first query the cycle sleeps \<^verbatim>\<open>reAuthCooldown\<close> (5 seconds), authenticates, sleeps
  \<^verbatim>\<open>postAuthCooldown\<close> (2 seconds) and issues the same request with the same retry count once
  more, in this order, and then returns with the counter \<open>query\<close> one higher. No further
  query follows.
\<close>

theorem retried_query_failure_is_query_failure:
  assumes "IPAddr s = '''' \<Longrightarrow> GetNeibourIP_result env = Inr a"
    and "QueryEchonetLite_first env = Inl e1"
    and "Authenticate_result env = None"
    and "QueryEchonetLite_retry env = Inl e2"
  shows "scrape env s =
         Done (s\<lparr>IPAddr := (if IPAddr s = '''' then a else IPAddr s),
                 calls := calls s @ (if IPAddr s = '''' then [GetNeibourIP] else []) @
                   [QueryEchonetLite request 3, Sleep reAuthCooldown, Authenticate,
                    Sleep postAuthCooldown, QueryEchonetLite request 3],
                 logs := logs s @
                   [Slog LevelInfo ''Query failed, attempting re-auth'' [(''error'', e1)],
                    Slog LevelDebug ''Waiting before re-auth'' [(''cooldown'', ''5s'')],
                    Slog LevelInfo ''Re-authentication successful'' [],
                    Slog LevelDebug ''Waiting before retrying query'' [(''cooldown'', ''2s'')],
                    Slog LevelWarn ''Query failed after re-auth'' [(''error'', e2)]],
                 scrapeErrors := (scrapeErrors s)
                   (''query'' \<mapsto> (case scrapeErrors s ''query'' of None \<Rightarrow> 1 | Some c \<Rightarrow> c + 1)),
                 scrapeDuration := scrapeDuration s @ [since_start_seconds env]\<rparr>)
         \<and> sint reAuthCooldown = 5 * 1000000000
         \<and> sint postAuthCooldown = 2 * 1000000000"
proof (cases "IPAddr s = ''''")
  case True
  with assms show ?thesis
    by (simp add: scrape_def scrape_query_def observe_duration_def step_defs errorTypeQuery_def
        Let_def reAuthCooldown_def postAuthCooldown_def Second_def)
next
  case False
  with assms show ?thesis
    by (simp add: scrape_def scrape_query_def observe_duration_def step_defs errorTypeQuery_def
        Let_def reAuthCooldown_def postAuthCooldown_def Second_def)
qed

theorem retried_query_failure_witness:
  "scrape \<lparr>GetNeibourIP_result = Inr ''FE80:0000:0000:0000:021D:1290:1234:5678'',
           QueryEchonetLite_first = Inl ''timeout'', Authenticate_result = None,
           QueryEchonetLite_retry = Inl ''timeout again'',
           now_unix = 1700000000, since_start_seconds = 40\<rparr>
     (new_state '''') =
   Done ((new_state '''')
           \<lparr>IPAddr := ''FE80:0000:0000:0000:021D:1290:1234:5678'',
            calls := [GetNeibourIP, QueryEchonetLite request 3, Sleep reAuthCooldown, Authenticate,
                      Sleep postAuthCooldown, QueryEchonetLite request 3],
            logs := [Slog LevelInfo ''Query failed, attempting re-auth'' [(''error'', ''timeout'')],
                     Slog LevelDebug ''Waiting before re-auth'' [(''cooldown'', ''5s'')],
                     Slog LevelInfo ''Re-authentication successful'' [],
                     Slog LevelDebug ''Waiting before retrying query'' [(''cooldown'', ''2s'')],
                     Slog LevelWarn ''Query failed after re-auth'' [(''error'', ''timeout again'')]],
            scrapeErrors := [''query'' \<mapsto> 1],
            scrapeDuration := [40]\<rparr>)
   \<and> sint reAuthCooldown = 5 * 1000000000
   \<and> sint postAuthCooldown = 2 * 1000000000"
  using retried_query_failure_is_query_failure
    [of "new_state ''''"
        "\<lparr>GetNeibourIP_result = Inr ''FE80:0000:0000:0000:021D:1290:1234:5678'',
          QueryEchonetLite_first = Inl ''timeout'', Authenticate_result = None,
          QueryEchonetLite_retry = Inl ''timeout again'',
          now_unix = 1700000000, since_start_seconds = 40\<rparr>"
        "''FE80:0000:0000:0000:021D:1290:1234:5678''" "''timeout''" "''timeout again''"]
  by (simp add: new_state_def)

section \<open>Raw bytes that are too short\<close>

lemma parseProperties_returns:
  assumes "\<forall>p \<in> set ps.
             (if EPC p = LvSmartElectricEnergyMeter_InstantaneousElectricPower then 4 \<le> length (EDT p)
              else if EPC p = LvSmartElectricEnergyMeter_InstantaneousCurrent then 4 \<le> length (EDT p)
              else True)"
  shows "\<exists>r. parseProperties ps (foundData, s) = Done r"
  using assms
proof (induction ps arbitrary: foundData s)
  case Nil
  then show ?case by simp
next
  case (Cons p ps)
  show ?case
  proof (cases "EPC p = LvSmartElectricEnergyMeter_InstantaneousElectricPower")
    case True
    then have "4 \<le> length (EDT p)" using Cons.prems by simp
    then obtain v where "BigEndian_Uint32 (EDT p) = Some v"
      using BigEndian_Uint32_Some by blast
    then show ?thesis using True Cons by simp
  next
    case False
    show ?thesis
    proof (cases "EPC p = LvSmartElectricEnergyMeter_InstantaneousCurrent")
      case True
      then have len: "4 \<le> length (EDT p)" using False Cons.prems by simp
      then have "\<exists>r16. Option.bind (slice_to 2 (EDT p)) BigEndian_Uint16 = Some r16"
        by (simp add: slice_to_def BigEndian_Uint16_def)
      then obtain r16 where r: "Option.bind (slice_to 2 (EDT p)) BigEndian_Uint16 = Some r16" ..
      from len have "\<exists>t16. Option.bind (slice_from 2 (EDT p)) BigEndian_Uint16 = Some t16"
        by (simp add: slice_from_def BigEndian_Uint16_def)
      then obtain t16 where t: "Option.bind (slice_from 2 (EDT p)) BigEndian_Uint16 = Some t16" ..
      show ?thesis using True False r t Cons by (simp add: Let_def)
    next
      case False
      with \<open>EPC p \<noteq> LvSmartElectricEnergyMeter_InstantaneousElectricPower\<close> Cons
      show ?thesis by simp
    qed
  qed
qed

lemma short_current_bytes_panic:
  assumes "EPC p = LvSmartElectricEnergyMeter_InstantaneousCurrent"
    and "length (EDT p) < 4"
  shows "parseProperties (p # ps) (foundData, s) = Panic (foundData, s)"
proof -
  have ne: "EPC p \<noteq> LvSmartElectricEnergyMeter_InstantaneousElectricPower"
    using assms(1) by (simp add: LvSmartElectricEnergyMeter_InstantaneousCurrent_def
        LvSmartElectricEnergyMeter_InstantaneousElectricPower_def)
  have "Option.bind (slice_to 2 (EDT p)) BigEndian_Uint16 = None \<or>
        Option.bind (slice_from 2 (EDT p)) BigEndian_Uint16 = None"
    using assms(2) by (auto simp add: slice_to_def slice_from_def BigEndian_Uint16_def)
  then show ?thesis
    using assms(1) ne by (auto split: option.splits)
qed

text \<open>
  C1 fails on the code. A cycle with a known address whose first query succeeds with a response
  whose first property has the identifier of the instantaneous power and fewer than four raw
  bytes: \<^verbatim>\<open>binary.BigEndian.Uint32\<close> panics in \<^verbatim>\<open>parseAndSetMetrics\<close>. The deferred
  observation of the duration runs, no error counter is incremented, and the panic leaves
  \<^verbatim>\<open>scrape\<close>; nothing recovers it, so the process ends.
\<close>

theorem short_power_bytes_panic:
  assumes "IPAddr s \<noteq> ''''"
    and "QueryEchonetLite_first env = Inr response"
    and "Properties response = p # ps"
    and "EPC p = LvSmartElectricEnergyMeter_InstantaneousElectricPower"
    and "length (EDT p) < 4"
  shows "scrape env s =
         Panic (s\<lparr>calls := calls s @ [QueryEchonetLite request 3],
                  scrapeDuration := scrapeDuration s @ [since_start_seconds env]\<rparr>)"
  using assms
  by (simp add: scrape_def scrape_query_def parseAndSetMetrics_def observe_duration_def
      step_defs BigEndian_Uint32_None Let_def)

theorem short_power_bytes_witness:
  "scrape \<lparr>GetNeibourIP_result = Inl ''unused'',
           QueryEchonetLite_first = Inr \<lparr>Properties = [\<lparr>EPC = 0xE7, EDT = []\<rparr>]\<rparr>,
           Authenticate_result = None, QueryEchonetLite_retry = Inl ''unused'',
           now_unix = 1700000000, since_start_seconds = 2\<rparr>
     (new_state ''FE80:0000:0000:0000:021D:1290:1234:5678'') =
   Panic ((new_state ''FE80:0000:0000:0000:021D:1290:1234:5678'')
            \<lparr>calls := [QueryEchonetLite request 3], scrapeDuration := [2]\<rparr>)"
  using short_power_bytes_panic
    [of "new_state ''FE80:0000:0000:0000:021D:1290:1234:5678''"
        "\<lparr>GetNeibourIP_result = Inl ''unused'',
          QueryEchonetLite_first = Inr \<lparr>Properties = [\<lparr>EPC = 0xE7, EDT = []\<rparr>]\<rparr>,
          Authenticate_result = None, QueryEchonetLite_retry = Inl ''unused'',
          now_unix = 1700000000, since_start_seconds = 2\<rparr>"
        "\<lparr>Properties = [\<lparr>EPC = 0xE7, EDT = []\<rparr>]\<rparr>" "\<lparr>EPC = 0xE7, EDT = []\<rparr>" "[]"]
  by (simp add: new_state_def LvSmartElectricEnergyMeter_InstantaneousElectricPower_def)

section \<open>The cached address\<close>

lemma parseProperties_frame:
  "IPAddr (snd (reached (parseProperties ps (foundData, s)))) = IPAddr s \<and>
   calls (snd (reached (parseProperties ps (foundData, s)))) = calls s"
proof (induction ps arbitrary: foundData s)
  case Nil
  show ?case by simp
next
  case (Cons p ps)
  show ?case
    by (simp add: Cons.IH Let_def split: option.splits)
qed

lemma parseAndSetMetrics_frame:
  "IPAddr (reached (parseAndSetMetrics response env s)) = IPAddr s \<and>
   calls (reached (parseAndSetMetrics response env s)) = calls s"
proof (cases "parseProperties (Properties response) (False, s)")
  case (Done fs)
  obtain f s' where fs: "fs = (f, s')" by (cases fs)
  have "IPAddr s' = IPAddr s \<and> calls s' = calls s"
    using parseProperties_frame [of "Properties response" False s] Done fs by simp
  then show ?thesis
    using Done fs by (simp add: parseAndSetMetrics_def step_defs)
next
  case (Panic fs)
  obtain f s' where fs: "fs = (f, s')" by (cases fs)
  have "IPAddr s' = IPAddr s \<and> calls s' = calls s"
    using parseProperties_frame [of "Properties response" False s] Panic fs by simp
  then show ?thesis
    using Panic fs by (simp add: parseAndSetMetrics_def)
qed

text \<open>With a client that writes nothing, the cycle is the one defined first.\<close>

lemma scrape_query_w_no_writes:
  assumes "leaves_address w"
  shows "scrape_query_w w env s = scrape_query env s"
  using assms
  by (simp add: scrape_query_w_def scrape_query_def leaves_address_def client_write_def Let_def
      split: sum.splits option.splits)

lemma scrape_w_no_writes:
  assumes "leaves_address w" and "GetNeibourIP_writes w = None"
  shows "scrape_w w env s = scrape env s"
  using assms
  by (simp add: scrape_w_def scrape_def scrape_query_w_no_writes client_write_def Let_def
      split: sum.splits)

lemma client_write_calls: "calls (client_write w s) = calls s"
  by (simp add: client_write_def split: option.splits)

text \<open>
  From the query on, a cycle starts with the query and never calls \<^verbatim>\<open>GetNeibourIP\<close>, whatever
  the device answers and writes and whether the cycle returns or panics. \<^verbatim>\<open>scrape\<close> does not
  write the address there: with a client that leaves it alone, it is kept.
\<close>

lemma scrape_query_w_frame:
  "(\<exists>rest. calls (reached (scrape_query_w w env s)) = calls s @ QueryEchonetLite request 3 # rest \<and>
           GetNeibourIP \<notin> set rest) \<and>
   (leaves_address w \<longrightarrow> IPAddr (reached (scrape_query_w w env s)) = IPAddr s)"
proof (cases "QueryEchonetLite_first env")
  case (Inr response)
  define s1 where "s1 = client_write (QueryEchonetLite_first_writes w)
      (do_call (QueryEchonetLite request 3) s)"
  have s1: "calls s1 = calls s @ [QueryEchonetLite request 3]"
    "leaves_address w \<longrightarrow> IPAddr s1 = IPAddr s"
    by (simp add: s1_def client_write_calls do_call_def)
      (simp add: s1_def leaves_address_def client_write_def do_call_def)
  have "scrape_query_w w env s = parseAndSetMetrics response env s1"
    using Inr by (simp add: scrape_query_w_def s1_def)
  then show ?thesis
    using parseAndSetMetrics_frame [of response env s1] s1 by simp
next
  case first: (Inl err)
  define s5 where "s5 =
    client_write (Authenticate_writes w)
      (do_call Authenticate
        (do_call (Sleep reAuthCooldown)
          (do_log (Slog LevelDebug ''Waiting before re-auth'' [(''cooldown'', ''5s'')])
            (do_log (Slog LevelInfo ''Query failed, attempting re-auth'' [(''error'', err)])
              (client_write (QueryEchonetLite_first_writes w)
                (do_call (QueryEchonetLite request 3) s))))))"
  have s5: "calls s5 = calls s @ [QueryEchonetLite request 3, Sleep reAuthCooldown, Authenticate]"
    "leaves_address w \<longrightarrow> IPAddr s5 = IPAddr s"
    by (simp add: s5_def client_write_calls step_defs)
      (simp add: s5_def leaves_address_def client_write_def step_defs)
  show ?thesis
  proof (cases "Authenticate_result env")
    case (Some authErr)
    have "scrape_query_w w env s =
        Done (inc_scrapeErrors errorTypeAuth
          (do_log (Slog LevelWarn ''Authentication failed'' [(''error'', authErr)]) s5))"
      using first Some by (simp add: scrape_query_w_def Let_def s5_def)
    then show ?thesis using s5 by (simp add: step_defs)
  next
    case None
    define s9 where "s9 =
      client_write (QueryEchonetLite_retry_writes w)
        (do_call (QueryEchonetLite request 3)
          (do_call (Sleep postAuthCooldown)
            (do_log (Slog LevelDebug ''Waiting before retrying query'' [(''cooldown'', ''2s'')])
              (do_log (Slog LevelInfo ''Re-authentication successful'' []) s5))))"
    have s9: "calls s9 = calls s @ [QueryEchonetLite request 3, Sleep reAuthCooldown,
        Authenticate, Sleep postAuthCooldown, QueryEchonetLite request 3]"
      "leaves_address w \<longrightarrow> IPAddr s9 = IPAddr s"
    proof -
      show "calls s9 = calls s @ [QueryEchonetLite request 3, Sleep reAuthCooldown,
          Authenticate, Sleep postAuthCooldown, QueryEchonetLite request 3]"
        using s5(1) by (simp add: s9_def client_write_calls step_defs)
      show "leaves_address w \<longrightarrow> IPAddr s9 = IPAddr s"
        using s5(2) by (simp add: s9_def leaves_address_def client_write_def step_defs)
    qed
    show ?thesis
    proof (cases "QueryEchonetLite_retry env")
      case (Inl err2)
      have "scrape_query_w w env s =
          Done (inc_scrapeErrors errorTypeQuery
            (do_log (Slog LevelWarn ''Query failed after re-auth'' [(''error'', err2)]) s9))"
        using first None Inl by (simp add: scrape_query_w_def Let_def s5_def s9_def)
      then show ?thesis using s9 by (simp add: step_defs)
    next
      case (Inr response)
      have "scrape_query_w w env s = parseAndSetMetrics response env s9"
        using first None Inr by (simp add: scrape_query_w_def Let_def s5_def s9_def)
      then show ?thesis
        using parseAndSetMetrics_frame [of response env s9] s9 by simp
    qed
  qed
qed

lemma reached_observe_duration:
  "IPAddr (reached (observe_duration env r)) = IPAddr (reached r) \<and>
   calls (reached (observe_duration env r)) = calls (reached r)"
  by (cases r) (simp_all add: observe_duration_def)

text \<open>A cycle calls \<^verbatim>\<open>GetNeibourIP\<close> when, and only when, it starts without an address.\<close>

lemma scrape_w_without_address:
  assumes "IPAddr s = ''''"
  shows "\<exists>rest. calls (reached (scrape_w w env s)) = calls s @ GetNeibourIP # rest"
proof (cases "GetNeibourIP_result env")
  case (Inl err)
  with assms show ?thesis
    by (simp add: scrape_w_def observe_duration_def step_defs client_write_calls Let_def)
next
  case (Inr ipAddr)
  define s1 where "s1 = (client_write (GetNeibourIP_writes w) (do_call GetNeibourIP s))\<lparr>IPAddr := ipAddr\<rparr>"
  have "calls s1 = calls s @ [GetNeibourIP]"
    by (simp add: s1_def client_write_calls do_call_def)
  then show ?thesis
    using assms Inr scrape_query_w_frame [of w env s1]
    by (auto simp add: scrape_w_def reached_observe_duration Let_def s1_def)
qed




text \<open>
  The empty string is how the session says that it has no address: a resolution that returns it
  without an error is stored, and the next cycle resolves again. Hence the condition below that
  the resolved address is not empty.
\<close>

lemma empty_address_is_resolved_again:
  "calls (reached (scrape_cycles
        [\<lparr>GetNeibourIP_result = Inr '''', QueryEchonetLite_first = Inl ''timeout'',
          Authenticate_result = Some ''join failed'', QueryEchonetLite_retry = Inl ''unused'',
          now_unix = 1700000000, since_start_seconds = 35\<rparr>,
         \<lparr>GetNeibourIP_result = Inr '''', QueryEchonetLite_first = Inl ''timeout'',
          Authenticate_result = Some ''join failed'', QueryEchonetLite_retry = Inl ''unused'',
          now_unix = 1700000060, since_start_seconds = 35\<rparr>]
        (new_state ''''))) =
     [GetNeibourIP, QueryEchonetLite request 3, Sleep reAuthCooldown, Authenticate,
      GetNeibourIP, QueryEchonetLite request 3, Sleep reAuthCooldown, Authenticate]"
  by (simp add: scrape_def scrape_query_def observe_duration_def step_defs new_state_def Let_def)




section \<open>The two variants of \<^verbatim>\<open>main.go\<close>\<close>

lemma same_but_logs_iff:
  "((s1 :: state)\<lparr>logs := []\<rparr> = s2\<lparr>logs := []\<rparr>) \<longleftrightarrow>
   (IPAddr s1 = IPAddr s2 \<and> powerGauge s1 = powerGauge s2 \<and> currentGauge s1 = currentGauge s2 \<and>
    lastSuccessGauge s1 = lastSuccessGauge s2 \<and> scrapeDuration s1 = scrapeDuration s2 \<and>
    scrapeErrors s1 = scrapeErrors s2 \<and> calls s1 = calls s2)"
  by (cases s1, cases s2) auto

lemma parseProperties_variants:
  assumes "s1\<lparr>logs := []\<rparr> = s2\<lparr>logs := []\<rparr>"
  shows "rel_result (\<lambda>x y. fst x = fst y \<and> (snd x)\<lparr>logs := []\<rparr> = (snd y)\<lparr>logs := []\<rparr>)
           (parseProperties_log ps (foundData, s1)) (parseProperties ps (foundData, s2))"
  using assms
proof (induction ps arbitrary: foundData s1 s2)
  case Nil
  then show ?case by simp
next
  case (Cons p ps)
  have power: "(s1\<lparr>powerGauge := v\<rparr>)\<lparr>logs := []\<rparr> = (s2\<lparr>powerGauge := v\<rparr>)\<lparr>logs := []\<rparr>" for v
    using Cons.prems by (simp add: same_but_logs_iff)
  have current: "(s1\<lparr>currentGauge := (currentGauge s1)(''r'' \<mapsto> r, ''t'' \<mapsto> t)\<rparr>)\<lparr>logs := []\<rparr> =
      (s2\<lparr>currentGauge := (currentGauge s2)(''r'' \<mapsto> r, ''t'' \<mapsto> t)\<rparr>)\<lparr>logs := []\<rparr>" for r t
    using Cons.prems by (simp add: same_but_logs_iff)
  show ?case
    using Cons.prems Cons.IH [OF power] Cons.IH [OF current] Cons.IH [OF Cons.prems]
    by (simp add: Let_def split: option.splits)
qed

lemma parseAndSetMetrics_variants:
  assumes "s1\<lparr>logs := []\<rparr> = s2\<lparr>logs := []\<rparr>"
  shows "without_logs (parseAndSetMetrics_log response env s1) =
         without_logs (parseAndSetMetrics response env s2)"
proof -
  have rel: "rel_result (\<lambda>x y. fst x = fst y \<and> (snd x)\<lparr>logs := []\<rparr> = (snd y)\<lparr>logs := []\<rparr>)
      (parseProperties_log (Properties response) (False, s1))
      (parseProperties (Properties response) (False, s2))"
    using assms by (rule parseProperties_variants)
  show ?thesis
  proof (cases "parseProperties_log (Properties response) (False, s1)")
    case old: (Done x)
    then obtain y where new: "parseProperties (Properties response) (False, s2) = Done y"
      and xy: "fst x = fst y" "(snd x)\<lparr>logs := []\<rparr> = (snd y)\<lparr>logs := []\<rparr>"
      using rel by (cases "parseProperties (Properties response) (False, s2)") simp_all
    show ?thesis
      using xy by (cases x, cases y)
        (simp add: parseAndSetMetrics_log_def parseAndSetMetrics_def old new without_logs_def
          step_defs same_but_logs_iff)
  next
    case old: (Panic x)
    then obtain y where new: "parseProperties (Properties response) (False, s2) = Panic y"
      and xy: "fst x = fst y" "(snd x)\<lparr>logs := []\<rparr> = (snd y)\<lparr>logs := []\<rparr>"
      using rel by (cases "parseProperties (Properties response) (False, s2)") simp_all
    show ?thesis
      using xy by (cases x, cases y)
        (simp add: parseAndSetMetrics_log_def parseAndSetMetrics_def old new without_logs_def)
  qed
qed

lemma scrape_query_variants:
  assumes "s1\<lparr>logs := []\<rparr> = s2\<lparr>logs := []\<rparr>"
  shows "without_logs (scrape_query_log env s1) = without_logs (scrape_query env s2)"
proof (cases "QueryEchonetLite_first env")
  case (Inr response)
  have "(do_call (QueryEchonetLite request 3) s1)\<lparr>logs := []\<rparr> =
      (do_call (QueryEchonetLite request 3) s2)\<lparr>logs := []\<rparr>"
    using assms by (simp add: same_but_logs_iff do_call_def)
  then show ?thesis
    using Inr by (simp add: scrape_query_log_def scrape_query_def parseAndSetMetrics_variants)
next
  case first: (Inl err)
  show ?thesis
  proof (cases "Authenticate_result env")
    case (Some authErr)
    with first assms show ?thesis
      by (simp add: scrape_query_log_def scrape_query_def without_logs_def step_defs Let_def
          same_but_logs_iff)
  next
    case None
    show ?thesis
    proof (cases "QueryEchonetLite_retry env")
      case (Inl err2)
      with first None assms show ?thesis
        by (simp add: scrape_query_log_def scrape_query_def without_logs_def step_defs Let_def
            same_but_logs_iff)
    next
      case (Inr response)
      define old where "old =
        do_call (QueryEchonetLite request 3)
          (do_call (Sleep postAuthCooldown)
            (do_log (Printf ''Re-authentication successful. Waiting %s before retrying query...''
                       [''2s''])
              (do_call Authenticate
                (do_call (Sleep reAuthCooldown)
                  (do_log (Printf ''Waiting %s before attempting re-auth...'' [''5s''])
                    (do_log (Printf ''Query failed: %v'' [err])
                      (do_call (QueryEchonetLite request 3) s1)))))))"
      define new where "new =
        do_call (QueryEchonetLite request 3)
          (do_call (Sleep postAuthCooldown)
            (do_log (Slog LevelDebug ''Waiting before retrying query'' [(''cooldown'', ''2s'')])
              (do_log (Slog LevelInfo ''Re-authentication successful'' [])
                (do_call Authenticate
                  (do_call (Sleep reAuthCooldown)
                    (do_log (Slog LevelDebug ''Waiting before re-auth'' [(''cooldown'', ''5s'')])
                      (do_log (Slog LevelInfo ''Query failed, attempting re-auth'' [(''error'', err)])
                        (do_call (QueryEchonetLite request 3) s2))))))))"
      have same: "old\<lparr>logs := []\<rparr> = new\<lparr>logs := []\<rparr>"
        using assms by (simp add: old_def new_def step_defs same_but_logs_iff)
      have "scrape_query_log env s1 = parseAndSetMetrics_log response env old"
        using first None Inr by (simp add: scrape_query_log_def Let_def old_def)
      moreover have "scrape_query env s2 = parseAndSetMetrics response env new"
        using first None Inr by (simp add: scrape_query_def Let_def new_def)
      ultimately show ?thesis
        using parseAndSetMetrics_variants [OF same] by simp
    qed
  qed
qed

lemma without_logs_observe_duration:
  "without_logs r1 = without_logs r2 \<Longrightarrow>
   without_logs (observe_duration env r1) = without_logs (observe_duration env r2)"
  by (cases r1; cases r2) (simp_all add: without_logs_def observe_duration_def same_but_logs_iff)

lemma scrape_variants:
  assumes "s1\<lparr>logs := []\<rparr> = s2\<lparr>logs := []\<rparr>"
  shows "without_logs (scrape_log env s1) = without_logs (scrape env s2)"
proof -
  have addr: "IPAddr s1 = IPAddr s2"
    using assms by (simp add: same_but_logs_iff)
  show ?thesis
  proof (cases "IPAddr s1 = ''''")
    case False
    have "without_logs (scrape_query_log env s1) = without_logs (scrape_query env s2)"
      using assms by (rule scrape_query_variants)
    from without_logs_observe_duration [OF this, of env] show ?thesis
      using False addr by (simp add: scrape_log_def scrape_def)
  next
    case True
    show ?thesis
    proof (cases "GetNeibourIP_result env")
      case (Inl err)
      with True addr assms show ?thesis
        by (simp add: scrape_log_def scrape_def without_logs_def observe_duration_def step_defs
            Let_def same_but_logs_iff)
    next
      case (Inr ipAddr)
      have "((do_call GetNeibourIP s1)\<lparr>IPAddr := ipAddr\<rparr>)\<lparr>logs := []\<rparr> =
          ((do_call GetNeibourIP s2)\<lparr>IPAddr := ipAddr\<rparr>)\<lparr>logs := []\<rparr>"
        using assms by (simp add: same_but_logs_iff do_call_def)
      then have "without_logs (scrape_query_log env ((do_call GetNeibourIP s1)\<lparr>IPAddr := ipAddr\<rparr>)) =
          without_logs (scrape_query env ((do_call GetNeibourIP s2)\<lparr>IPAddr := ipAddr\<rparr>))"
        by (rule scrape_query_variants)
      from without_logs_observe_duration [OF this, of env] show ?thesis
        using True addr Inr by (simp add: scrape_log_def scrape_def Let_def)
    qed
  qed
qed

text \<open>
  C9. For every session state, every set of answers of the device client and the clock, the
  \<^verbatim>\<open>scrape\<close> of the older variant and the \<^verbatim>\<open>scrape\<close> of the newer one both return or both
  panic, and reach the same address in the session, the same gauges, counters, observations
  and time of the last success, and the same calls of the device client and sleeps in the same
  order; so do the two \<^verbatim>\<open>parseAndSetMetrics\<close> on every response. They differ in the log lines
  only.
\<close>

theorem scrape_variants_agree_but_for_logs:
  "without_logs (scrape_log env s) = without_logs (scrape env s) \<and>
   without_logs (parseAndSetMetrics_log response env s) =
   without_logs (parseAndSetMetrics response env s)"
  by (simp add: scrape_variants parseAndSetMetrics_variants)

text \<open>
  An instance: the query fails, the re-authentication succeeds, and the second query brings a
  response without a recognized property.
\<close>

theorem scrape_variants_witness:
  "without_logs (scrape_log
     \<lparr>GetNeibourIP_result = Inl ''unused'', QueryEchonetLite_first = Inl ''timeout'',
      Authenticate_result = None,
      QueryEchonetLite_retry = Inr \<lparr>Properties = [\<lparr>EPC = 0x80, EDT = [0x30]\<rparr>]\<rparr>,
      now_unix = 1700000000, since_start_seconds = 40\<rparr>
     (new_state ''FE80:0000:0000:0000:021D:1290:1234:5678'')) =
   Done ((new_state ''FE80:0000:0000:0000:021D:1290:1234:5678'')
           \<lparr>calls := [QueryEchonetLite request 3, Sleep reAuthCooldown, Authenticate,
                      Sleep postAuthCooldown, QueryEchonetLite request 3],
            scrapeErrors := [''parse'' \<mapsto> 1],
            scrapeDuration := [40]\<rparr>)"
  using scrape_variants_agree_but_for_logs
    [of "\<lparr>GetNeibourIP_result = Inl ''unused'', QueryEchonetLite_first = Inl ''timeout'',
          Authenticate_result = None,
          QueryEchonetLite_retry = Inr \<lparr>Properties = [\<lparr>EPC = 0x80, EDT = [0x30]\<rparr>]\<rparr>,
          now_unix = 1700000000, since_start_seconds = 40\<rparr>"
        "new_state ''FE80:0000:0000:0000:021D:1290:1234:5678''"]
  by (simp add: scrape_def scrape_query_def parseAndSetMetrics_def observe_duration_def
      without_logs_def step_defs new_state_def Let_def errorTypeParse_def
      LvSmartElectricEnergyMeter_InstantaneousElectricPower_def
      LvSmartElectricEnergyMeter_InstantaneousCurrent_def)

section \<open>Configuration\<close>

text \<open>
  C10. When \<^verbatim>\<open>SMARTMETER_DSE\<close> is not set, or set to a value other than \<^verbatim>\<open>false\<close> and \<^verbatim>\<open>0\<close>
  (the empty string included), \<^verbatim>\<open>useDSE\<close> is true before the flags are parsed, although it is
  declared false; without the flag \<^verbatim>\<open>-dse\<close> on the command line it stays true.
\<close>

theorem dual_stack_on_unless_env_false_or_0:
  assumes "environ ''SMARTMETER_DSE'' = None \<or>
           (\<exists>v. environ ''SMARTMETER_DSE'' = Some v \<and> v \<noteq> ''false'' \<and> v \<noteq> ''0'')"
    and "flag_dse fl = None"
  shows "main_useDSE_env environ = True \<and> main_useDSE environ fl = True"
  using assms
  by (auto simp add: main_useDSE_def main_useDSE_env_def flag_Parse_def os_Getenv_def Let_def)

theorem dual_stack_on_witness:
  "main_useDSE_env Map.empty = True \<and>
   main_useDSE Map.empty \<lparr>flag_interval = None, flag_dse = None\<rparr> = True"
  using dual_stack_on_unless_env_false_or_0
    [of Map.empty "\<lparr>flag_interval = None, flag_dse = None\<rparr>"]
  by simp

lemma dual_stack_off:
  "environ ''SMARTMETER_DSE'' = Some ''false'' \<or> environ ''SMARTMETER_DSE'' = Some ''0'' \<Longrightarrow>
   main_useDSE_env environ = False"
  by (auto simp add: main_useDSE_env_def os_Getenv_def Let_def)

subsection \<open>The poll interval\<close>

lemma main_intervalSec_ge_10: "10 \<le> main_intervalSec intSize intervalStr"
  by (simp add: main_intervalSec_def split: option.splits)

lemma main_intervalSec_default:
  "Atoi intSize intervalStr = None \<or> (\<exists>n. Atoi intSize intervalStr = Some n \<and> n < 10) \<Longrightarrow>
   main_intervalSec intSize intervalStr = 60"
  by (auto simp add: main_intervalSec_def)

lemma sint_seconds:
  assumes "0 \<le> n" and "n \<le> 9223372036"
  shows "sint (word_of_int n * Second :: Duration) = n * 1000000000"
proof -
  have eq: "word_of_int n * Second = (word_of_int (n * 1000000000) :: Duration)"
    by (simp add: Second_def)
  have "signed_take_bit 63 (n * 1000000000) = n * 1000000000"
    by (rule signed_take_bit_int_eq_self) (use assms in simp_all)
  then show ?thesis
    unfolding eq sint_sbintrunc' by simp
qed

text \<open>
  Where the seconds fit \<^verbatim>\<open>time.Duration\<close> (up to 9223372036 seconds, some 292 years), the
  period is at least ten seconds; a string that is no number, or a number below ten, gives 60
  seconds.
\<close>

lemma main_interval_at_least_10s:
  assumes "main_intervalSec intSize intervalStr \<le> 9223372036"
  shows "10 * 1000000000 \<le> sint (main_interval intSize intervalStr)"
proof -
  have "10 \<le> main_intervalSec intSize intervalStr" by (rule main_intervalSec_ge_10)
  then show ?thesis
    using sint_seconds [of "main_intervalSec intSize intervalStr"] assms
    by (simp add: main_interval_def)
qed

lemma Atoi_range:
  "Atoi intSize s = Some n \<Longrightarrow> - (2 ^ (intSize - 1)) \<le> n \<and> n < 2 ^ (intSize - 1)"
  by (auto simp add: Atoi_def Let_def split: if_splits option.splits)

lemma main_interval_at_least_10s_32bit:
  "10 * 1000000000 \<le> sint (main_interval 32 intervalStr)"
proof (rule main_interval_at_least_10s)
  show "main_intervalSec 32 intervalStr \<le> 9223372036"
  proof (cases "Atoi 32 intervalStr")
    case None
    then show ?thesis by (simp add: main_intervalSec_def)
  next
    case (Some n)
    then have "n < 2 ^ 31" using Atoi_range [of 32 intervalStr n] by simp
    then show ?thesis using Some by (simp add: main_intervalSec_def)
  qed
qed

text \<open>
  C8 fails on the code where \<^verbatim>\<open>int\<close> has 64 bits. With \<^verbatim>\<open>SMARTMETER_INTERVAL\<close> set to
  \<^verbatim>\<open>36028797018963969\<close> (\<open>2 ^ 55 + 1\<close>) and no flag, the interval is a number and not below
  ten, so it is kept; multiplied by the \<open>10 ^ 9\<close> nanoseconds of a second it wraps around in
  \<^verbatim>\<open>int64\<close>, and the period handed to \<^verbatim>\<open>runScrapeLoop\<close> is one second.
\<close>

theorem huge_interval_wraps_to_one_second:
  "main_intervalStr [''SMARTMETER_INTERVAL'' \<mapsto> ''36028797018963969'']
     \<lparr>flag_interval = None, flag_dse = None\<rparr> = ''36028797018963969'' \<and>
   main_intervalSec 64 ''36028797018963969'' = 36028797018963969 \<and>
   sint (main_interval 64 ''36028797018963969'') = 1 * 1000000000"
  by (simp add: main_intervalStr_def getEnv_def os_Getenv_def flag_Parse_def main_interval_def
      main_intervalSec_def Atoi_def Second_def Let_def)

section \<open>Whole cycles on concrete answers\<close>

lemma float64_of_int_exact:
  assumes "0 \<le> n" and "n < 2 ^ 53"
  shows "float64_of_int n = of_int n"
proof -
  have "nat n < 2 ^ 53" using assms by (simp add: nat_less_iff)
  then have "float64_round (of_nat (nat n)) = of_nat (nat n)" by (rule float64_round_of_nat)
  then show ?thesis using assms(1) by (simp add: float64_of_int_def)
qed

text \<open>
  The successful scenario of the specification: power bytes \<open>00 00 04 B0\<close> and current bytes
  \<open>00 64 00 32\<close> give 1200 watts, 10.0 and 5.0 amperes, and the time of the last success.
\<close>

lemma scrape_success_scenario:
  "scrape \<lparr>GetNeibourIP_result = Inl ''unused'',
           QueryEchonetLite_first = Inr \<lparr>Properties =
             [\<lparr>EPC = 0xE7, EDT = [0x00, 0x00, 0x04, 0xB0]\<rparr>,
              \<lparr>EPC = 0xE8, EDT = [0x00, 0x64, 0x00, 0x32]\<rparr>]\<rparr>,
           Authenticate_result = None, QueryEchonetLite_retry = Inl ''unused'',
           now_unix = 1700000000, since_start_seconds = 2\<rparr>
     (new_state ''FE80:0000:0000:0000:021D:1290:1234:5678'') =
   Done ((new_state ''FE80:0000:0000:0000:021D:1290:1234:5678'')
           \<lparr>powerGauge := 1200, currentGauge := [''r'' \<mapsto> 10, ''t'' \<mapsto> 5],
            lastSuccessGauge := 1700000000, scrapeDuration := [2],
            calls := [QueryEchonetLite request 3],
            logs := [Slog LevelDebug ''Scrape successful'' []]\<rparr>)"
proof -
  have power: "BigEndian_Uint32 [0x00, 0x00, 0x04, 0xB0] = Some 1200"
    by (simp add: BigEndian_Uint32_def)
  have current: "BigEndian_Uint16 [0x00, 0x64] = Some 100" "BigEndian_Uint16 [0x00, 0x32] = Some 50"
    by (simp_all add: BigEndian_Uint16_def)
  have f: "float64_of_nat 1200 = 1200" "float64_of_nat 100 = 100" "float64_of_nat 50 = 50"
    using float64_round_of_nat [of 1200] float64_round_of_nat [of 100] float64_round_of_nat [of 50]
    by (simp_all add: float64_of_nat_def)
  have now: "float64_of_int 1700000000 = 1700000000"
    using float64_of_int_exact [of 1700000000] by simp
  show ?thesis
    by (simp add: scrape_def scrape_query_def parseAndSetMetrics_def observe_duration_def
        step_defs new_state_def Let_def LvSmartElectricEnergyMeter_InstantaneousElectricPower_def
        LvSmartElectricEnergyMeter_InstantaneousCurrent_def slice_current_bytes power current f
        now float64_div_exact_examples)
qed

text \<open>A quotient that no double holds: one tenth of an ampere.\<close>

lemma float64_div_rounds_example:
  "float64_div 1 10 = 3602879701896397 / 2 ^ 55"
  by code_simp

text \<open>
  Where every property with one of the two identifiers has at least four raw bytes, the cycle
  returns, whatever else the device answers.
\<close>

lemma parseAndSetMetrics_returns:
  assumes "\<forall>p \<in> set (Properties response).
             (if EPC p = LvSmartElectricEnergyMeter_InstantaneousElectricPower then 4 \<le> length (EDT p)
              else if EPC p = LvSmartElectricEnergyMeter_InstantaneousCurrent then 4 \<le> length (EDT p)
              else True)"
  shows "\<exists>s'. parseAndSetMetrics response env s = Done s'"
proof -
  obtain r where "parseProperties (Properties response) (False, s) = Done r"
    using parseProperties_returns [OF assms] by blast
  then show ?thesis
    by (cases r) (simp add: parseAndSetMetrics_def)
qed

lemma scrape_returns:
  assumes first: "\<And>response. QueryEchonetLite_first env = Inr response \<Longrightarrow>
             \<forall>p \<in> set (Properties response).
               (if EPC p = LvSmartElectricEnergyMeter_InstantaneousElectricPower then 4 \<le> length (EDT p)
                else if EPC p = LvSmartElectricEnergyMeter_InstantaneousCurrent then 4 \<le> length (EDT p)
                else True)"
    and retry: "\<And>response. QueryEchonetLite_retry env = Inr response \<Longrightarrow>
             \<forall>p \<in> set (Properties response).
               (if EPC p = LvSmartElectricEnergyMeter_InstantaneousElectricPower then 4 \<le> length (EDT p)
                else if EPC p = LvSmartElectricEnergyMeter_InstantaneousCurrent then 4 \<le> length (EDT p)
                else True)"
  shows "\<exists>s'. scrape env s = Done s'"
proof -
  have query: "\<exists>s'. scrape_query env s0 = Done s'" for s0
  proof (cases "QueryEchonetLite_first env")
    case (Inr response)
    then show ?thesis
      using parseAndSetMetrics_returns [OF first [OF Inr]]
      by (simp add: scrape_query_def Let_def)
  next
    case 1: (Inl err)
    show ?thesis
    proof (cases "Authenticate_result env")
      case (Some authErr)
      with 1 show ?thesis by (simp add: scrape_query_def Let_def)
    next
      case None
      show ?thesis
      proof (cases "QueryEchonetLite_retry env")
        case (Inl err2)
        with 1 None show ?thesis by (simp add: scrape_query_def Let_def)
      next
        case (Inr response)
        with 1 None show ?thesis
          using parseAndSetMetrics_returns [OF retry [OF Inr]]
          by (simp add: scrape_query_def Let_def)
      qed
    qed
  qed
  have observed: "\<exists>s'. observe_duration env r = Done s'" if "\<exists>s'. r = Done s'" for r
    using that by (auto simp add: observe_duration_def)
  show ?thesis
  proof (cases "IPAddr s = ''''")
    case False
    then show ?thesis using observed [OF query [of s]] by (simp add: scrape_def)
  next
    case True
    show ?thesis
    proof (cases "GetNeibourIP_result env")
      case (Inl err)
      with True show ?thesis by (simp add: scrape_def observe_duration_def Let_def)
    next
      case (Inr ipAddr)
      with True show ?thesis
        using observed [OF query [of "(do_call GetNeibourIP s)\<lparr>IPAddr := ipAddr\<rparr>"]]
        by (simp add: scrape_def Let_def)
    qed
  qed
qed

text \<open>With the interval \<open>2 ^ 55\<close> the period is zero and \<^verbatim>\<open>time.NewTicker\<close> panics.\<close>

lemma zero_interval_panics:
  "runScrapeLoop (main_interval 64 ''36028797018963968'') env envs s = Panic s"
  by (simp add: runScrapeLoop_def main_interval_def main_intervalSec_def Atoi_def Second_def
      Let_def)

end
